theory Spec2Isabelle
  imports
    Complex_Main
    "HOL-Library.Multiset"
    "HOL-Library.Sublist"
    "HOL-Library.Product_Lexorder"
begin

section \<open>JavaScript numbers\<close>

text \<open>
  The search page computes with JavaScript numbers. The three non-finite values are
  kept, because the sort comparator of the page relies on \<open>Infinity\<close> and produces
  \<open>NaN\<close> for \<open>Infinity - Infinity\<close>. A finite number is the real it denotes, and
  arithmetic on finite numbers is exact: rounding, overflow and the sign of zero are not
  part of it, so the value of an expression is the value the program computes only up
  to rounding. The properties proved below do not rest on such values. They use of a
  distance whether it is present and whether it is a finite number, and of two finite
  distances the sign of their difference, which rounding keeps (the difference of two
  doubles is zero only when they are equal).
\<close>

datatype jsnum = Fin real | PInf | NInf | NaN

fun js_neg :: "jsnum \<Rightarrow> jsnum" where
  "js_neg (Fin a) = Fin (- a)"
| "js_neg PInf = NInf"
| "js_neg NInf = PInf"
| "js_neg NaN = NaN"

fun js_add :: "jsnum \<Rightarrow> jsnum \<Rightarrow> jsnum" where
  "js_add NaN b = NaN"
| "js_add a NaN = NaN"
| "js_add (Fin a) (Fin b) = Fin (a + b)"
| "js_add (Fin a) b = b"
| "js_add a (Fin b) = a"
| "js_add PInf PInf = PInf"
| "js_add NInf NInf = NInf"
| "js_add PInf NInf = NaN"
| "js_add NInf PInf = NaN"

definition js_sub :: "jsnum \<Rightarrow> jsnum \<Rightarrow> jsnum" where
  "js_sub a b = js_add a (js_neg b)"

text \<open>The sign of a number that is not \<open>NaN\<close>: \<open>-1\<close>, \<open>0\<close> or \<open>1\<close>.\<close>

fun js_sign :: "jsnum \<Rightarrow> real" where
  "js_sign (Fin a) = sgn a"
| "js_sign PInf = 1"
| "js_sign NInf = - 1"
| "js_sign NaN = 0"

fun js_mul :: "jsnum \<Rightarrow> jsnum \<Rightarrow> jsnum" where
  "js_mul NaN b = NaN"
| "js_mul a NaN = NaN"
| "js_mul (Fin a) (Fin b) = Fin (a * b)"
| "js_mul a b =
     (if js_sign a * js_sign b = 0 then NaN
      else if 0 < js_sign a * js_sign b then PInf else NInf)"

fun js_div :: "jsnum \<Rightarrow> jsnum \<Rightarrow> jsnum" where
  "js_div NaN b = NaN"
| "js_div a NaN = NaN"
| "js_div (Fin a) (Fin b) =
     (if b \<noteq> 0 then Fin (a / b)
      else if a = 0 then NaN else if 0 < a then PInf else NInf)"
| "js_div (Fin a) b = Fin 0"
| "js_div a (Fin b) = (if 0 \<le> b then a else js_neg a)"
| "js_div a b = NaN"

fun js_sin :: "jsnum \<Rightarrow> jsnum" where
  "js_sin (Fin a) = Fin (sin a)"
| "js_sin a = NaN"

fun js_cos :: "jsnum \<Rightarrow> jsnum" where
  "js_cos (Fin a) = Fin (cos a)"
| "js_cos a = NaN"

fun js_sqrt :: "jsnum \<Rightarrow> jsnum" where
  "js_sqrt (Fin a) = (if a < 0 then NaN else Fin (sqrt a))"
| "js_sqrt PInf = PInf"
| "js_sqrt a = NaN"

text \<open>\<open>Math.atan2(y, x)\<close> on finite arguments: the angle of the point \<open>(x, y)\<close>.\<close>

definition atan2 :: "real \<Rightarrow> real \<Rightarrow> real" where
  "atan2 y x =
     (if 0 < x then arctan (y / x)
      else if x < 0 then (if 0 \<le> y then arctan (y / x) + pi else arctan (y / x) - pi)
      else if 0 < y then pi / 2
      else if y < 0 then - (pi / 2)
      else 0)"

fun js_atan2 :: "jsnum \<Rightarrow> jsnum \<Rightarrow> jsnum" where
  "js_atan2 NaN x = NaN"
| "js_atan2 y NaN = NaN"
| "js_atan2 (Fin y) (Fin x) = Fin (atan2 y x)"
| "js_atan2 (Fin y) PInf = Fin 0"
| "js_atan2 (Fin y) NInf = (if 0 \<le> y then Fin pi else Fin (- pi))"
| "js_atan2 PInf (Fin x) = Fin (pi / 2)"
| "js_atan2 NInf (Fin x) = Fin (- (pi / 2))"
| "js_atan2 PInf PInf = Fin (pi / 4)"
| "js_atan2 PInf NInf = Fin (3 * pi / 4)"
| "js_atan2 NInf PInf = Fin (- (pi / 4))"
| "js_atan2 NInf NInf = Fin (- (3 * pi / 4))"

definition Math_PI :: jsnum where
  "Math_PI = Fin pi"

section \<open>The distance function of the search page\<close>

text \<open>
  \<open>calculateDistance\<close>, operation by operation. In doubles the sum \<open>a\<close> can
  exceed \<open>1\<close> by rounding when the two points are nearly antipodal, and the square
  root of \<open>1 - a\<close> and the result are then \<open>NaN\<close>; with exact arithmetic
  \<open>a\<close> stays within \<open>[0, 1]\<close> and this does not show.
\<close>

definition toRad :: "jsnum \<Rightarrow> jsnum" where
  "toRad degrees = js_mul degrees (js_div Math_PI (Fin 180))"

definition calculateDistance :: "jsnum \<Rightarrow> jsnum \<Rightarrow> jsnum \<Rightarrow> jsnum \<Rightarrow> jsnum" where
  "calculateDistance lat1 lon1 lat2 lon2 =
     (let R = Fin 3959;
          dLat = toRad (js_sub lat2 lat1);
          dLon = toRad (js_sub lon2 lon1);
          a = js_add
                (js_mul (js_sin (js_div dLat (Fin 2))) (js_sin (js_div dLat (Fin 2))))
                (js_mul
                  (js_mul
                    (js_mul (js_cos (toRad lat1)) (js_cos (toRad lat2)))
                    (js_sin (js_div dLon (Fin 2))))
                  (js_sin (js_div dLon (Fin 2))));
          c = js_mul (Fin 2) (js_atan2 (js_sqrt a) (js_sqrt (js_sub (Fin 1) a)))
      in js_mul R c)"

section \<open>Rows of the data store\<close>

text \<open>
  The types of \<open>types/vendor\<close>. Only the columns that the modelled code reads or writes
  are kept. A column that several tables or objects share gets a prefix in all but one
  of them, since record fields of one theory share a name space: \<open>loc_\<close> for the
  \<open>locations\<close> table (\<open>zip\<close> is \<open>zip_code\<close>, \<open>notes\<close> is \<open>loc_notes\<close>), \<open>row_\<close> for
  the columns selected from
  \<open>vendors\<close>, \<open>ld_\<close> for those selected from \<open>locations\<close>, \<open>vl_\<close> and \<open>vwl_\<close> for
  the objects built by the search page, \<open>sel_\<close>
  for the location picked in the search box and \<open>upd_\<close> for the keys of an update.
\<close>

datatype VendorOperationalStatus = offline | live | closing_soon

record VendorStatus =
  vendor_id :: string
  is_live :: bool
  operational_status :: VendorOperationalStatus
  went_live_at :: "string option"
  current_location_id :: "string option"

record Location =
  loc_id :: string
  loc_vendor_id :: string
  latitude :: jsnum
  longitude :: jsnum
  address :: "string option"
  city :: "string option"
  state :: "string option"
  zip_code :: "string option"
  loc_notes :: "string option"
  is_current_location :: bool

text \<open>The columns \<open>id, business_name, description, cuisine_types, logo_url\<close> of \<open>vendors\<close>.\<close>

record vendor_row =
  row_id :: string
  row_business_name :: string
  row_description :: string
  row_cuisine_types :: "string list option"
  row_logo_url :: "string option"

text \<open>The answer of a query: \<open>{ data, error }\<close> with exactly one of the two set.\<close>

datatype 'a db_result = DbError string | DbData 'a

text \<open>What the position sensor answers to \<open>getCurrentPosition\<close>, when there is one.\<close>

datatype geolocation = Unsupported | PositionError | Position jsnum jsnum

section \<open>The search page\<close>

text \<open>
  A value that the store may return in a coordinate column: \<open>null\<close>, a number, a
  text, or nothing at all (\<open>undefined\<close>). The arithmetic of \<open>calculateDistance\<close>
  reads such a value as a number (\<open>ToNumber\<close>): \<open>null\<close> as \<open>0\<close>,
  \<open>undefined\<close> as \<open>NaN\<close>. The grammar by which the language reads a text as a
  number is not written out: \<open>JSString t n\<close> is the text \<open>t\<close> together with
  the number \<open>n\<close> that the language reads from it.
\<close>

datatype jsvalue = JSNull | JSUndefined | JSNumber jsnum | JSString string jsnum

fun ToNumber :: "jsvalue \<Rightarrow> jsnum" where
  "ToNumber JSNull = Fin 0"
| "ToNumber JSUndefined = NaN"
| "ToNumber (JSNumber n) = n"
| "ToNumber (JSString t n) = n"

text \<open>The columns \<open>latitude, longitude, address, notes\<close> of a row of \<open>locations\<close>.\<close>

record location_row =
  ld_latitude :: jsvalue
  ld_longitude :: jsvalue
  ld_address :: "string option"
  ld_notes :: "string option"

record vendor_location =
  vl_latitude :: jsvalue
  vl_longitude :: jsvalue
  vl_address :: "string option"
  vl_notes :: "string option"

record VendorWithLocation =
  vwl_id :: string
  business_name :: string
  description :: string
  cuisine_types :: "string list"
  logo_url :: "string option"
  vwl_operational_status :: VendorOperationalStatus
  location :: "vendor_location option"
  distance_miles :: "jsnum option"

record SearchPage =
  vendors :: "VendorWithLocation list"
  page_loading :: bool
  userLocation :: "(jsnum \<times> jsnum) option"
  selectedCuisines :: "string list"
  showLiveOnly :: bool

text \<open>\<open>s || undefined\<close> on an optional string: the empty string is falsy.\<close>

definition or_undefined :: "string option \<Rightarrow> string option" where
  "or_undefined s = (case s of None \<Rightarrow> None | Some t \<Rightarrow> if t = [] then None else Some t)"

text \<open>\<open>new Map(entries)\<close>: of two entries with one key the later one stays.\<close>

definition statusMap :: "VendorStatus list \<Rightarrow> string \<Rightarrow> VendorStatus option" where
  "statusMap statusData = map_of (rev (map (\<lambda>status. (vendor_id status, status)) statusData))"

text \<open>
  The body of the loop of \<open>fetchVendors\<close> for a vendor that has a status row.
  \<open>locationData\<close> is the answer of the store to
  \<open>from('locations').select(...).eq('id', id).single()\<close>: the row, or nothing when there
  is no such row or the request failed (the page does not look at that error). The
  coordinates of the row go into \<open>location\<close> as they are and into
  \<open>calculateDistance\<close>, whose subtractions and multiplications read them as numbers.
\<close>

definition vendorEntry ::
  "jsnum \<Rightarrow> jsnum \<Rightarrow> (string \<Rightarrow> location_row option) \<Rightarrow> vendor_row \<Rightarrow> VendorStatus
     \<Rightarrow> VendorWithLocation" where
  "vendorEntry userLat userLng locationData vendor status =
     (let found =
            (case current_location_id status of
               None \<Rightarrow> None
             | Some lid \<Rightarrow> if lid = [] then None else locationData lid);
          location =
            (case found of
               None \<Rightarrow> None
             | Some ld \<Rightarrow>
                 Some \<lparr>vl_latitude = ld_latitude ld, vl_longitude = ld_longitude ld,
                       vl_address = or_undefined (ld_address ld),
                       vl_notes = or_undefined (ld_notes ld)\<rparr>);
          distance =
            (case found of
               None \<Rightarrow> None
             | Some ld \<Rightarrow>
                 Some (calculateDistance userLat userLng
                         (ToNumber (ld_latitude ld)) (ToNumber (ld_longitude ld))))
      in \<lparr>vwl_id = row_id vendor,
          business_name = row_business_name vendor,
          description = row_description vendor,
          cuisine_types = (case row_cuisine_types vendor of None \<Rightarrow> [] | Some ts \<Rightarrow> ts),
          logo_url = or_undefined (row_logo_url vendor),
          vwl_operational_status = operational_status status,
          location = location,
          distance_miles = distance\<rparr>)"

text \<open>The loop over \<open>vendorsData\<close>; a vendor without a status row is skipped.\<close>

fun vendorsWithLocation ::
  "jsnum \<Rightarrow> jsnum \<Rightarrow> (string \<Rightarrow> VendorStatus option) \<Rightarrow> (string \<Rightarrow> location_row option)
     \<Rightarrow> vendor_row list \<Rightarrow> VendorWithLocation list" where
  "vendorsWithLocation userLat userLng smap locationData [] = []"
| "vendorsWithLocation userLat userLng smap locationData (vendor # rest) =
     (case smap (row_id vendor) of
        None \<Rightarrow> vendorsWithLocation userLat userLng smap locationData rest
      | Some status \<Rightarrow>
          vendorEntry userLat userLng locationData vendor status
            # vendorsWithLocation userLat userLng smap locationData rest)"

text \<open>The comparator handed to \<open>sort\<close>; \<open>d ?? Infinity\<close> is \<open>nullish d PInf\<close>.\<close>

definition nullish :: "'a option \<Rightarrow> 'a \<Rightarrow> 'a" where
  "nullish v d = (case v of None \<Rightarrow> d | Some w \<Rightarrow> w)"

definition compareVendors :: "VendorWithLocation \<Rightarrow> VendorWithLocation \<Rightarrow> jsnum" where
  "compareVendors a b =
     (let aIsLive = (vwl_operational_status a \<noteq> offline);
          bIsLive = (vwl_operational_status b \<noteq> offline)
      in if aIsLive \<and> \<not> bIsLive then Fin (- 1)
         else if \<not> aIsLive \<and> bIsLive then Fin 1
         else (let aDist = nullish (distance_miles a) PInf;
                   bDist = nullish (distance_miles b) PInf
               in js_sub aDist bDist))"

text \<open>
  \<open>Array.prototype.sort\<close> with a comparator. The language fixes what it returns when
  the comparator is consistent: the elements in an order that the comparator accepts,
  equal elements in their original order (the sort is stable); a comparator result is
  read through its sign and \<open>NaN\<close> counts as \<open>0\<close>. The model is the stable insertion
  sort: an element moves behind those it is greater than, and only those. When the
  comparator is not consistent on a list (a distance \<open>NaN\<close> among finite ones makes
  it so) the language leaves the order to the engine, and the insertion sort gives one of
  the orders an engine may give.
\<close>

fun js_positive :: "jsnum \<Rightarrow> bool" where
  "js_positive (Fin r) = (0 < r)"
| "js_positive PInf = True"
| "js_positive NInf = False"
| "js_positive NaN = False"

fun sort_insert :: "('a \<Rightarrow> 'a \<Rightarrow> jsnum) \<Rightarrow> 'a \<Rightarrow> 'a list \<Rightarrow> 'a list" where
  "sort_insert cmp x [] = [x]"
| "sort_insert cmp x (y # ys) =
     (if js_positive (cmp x y) then y # sort_insert cmp x ys else x # y # ys)"

fun array_sort :: "('a \<Rightarrow> 'a \<Rightarrow> jsnum) \<Rightarrow> 'a list \<Rightarrow> 'a list" where
  "array_sort cmp [] = []"
| "array_sort cmp (x # xs) = sort_insert cmp x (array_sort cmp xs)"

text \<open>
  \<open>fetchVendors\<close>: the two list queries, the loop, the sort. A failed query throws
  into the \<open>catch\<close>, which logs and keeps the list the page had; \<open>finally\<close> clears
  \<open>loading\<close>. The second query is not issued when the first has failed.
\<close>

definition fetchVendors ::
  "jsnum \<Rightarrow> jsnum \<Rightarrow> vendor_row list db_result \<Rightarrow> VendorStatus list db_result
     \<Rightarrow> (string \<Rightarrow> location_row option) \<Rightarrow> SearchPage \<Rightarrow> SearchPage" where
  "fetchVendors userLat userLng vendorsQuery statusQuery locationData page =
     (case vendorsQuery of
        DbError e \<Rightarrow> page\<lparr>page_loading := False\<rparr>
      | DbData vendorsData \<Rightarrow>
          (case statusQuery of
             DbError e \<Rightarrow> page\<lparr>page_loading := False\<rparr>
           | DbData statusData \<Rightarrow>
               page\<lparr>vendors :=
                      array_sort compareVendors
                        (vendorsWithLocation userLat userLng (statusMap statusData)
                           locationData vendorsData),
                    page_loading := False\<rparr>))"

definition defaultLocation :: "jsnum \<times> jsnum" where
  "defaultLocation = (Fin 39.7684, Fin (- 86.1581))"

text \<open>
  \<open>requestLocation\<close> returns the page together with the origin it handed to
  \<open>fetchVendors\<close>.
\<close>

definition requestLocation ::
  "geolocation \<Rightarrow> vendor_row list db_result \<Rightarrow> VendorStatus list db_result
     \<Rightarrow> (string \<Rightarrow> location_row option) \<Rightarrow> SearchPage \<Rightarrow> SearchPage \<times> (jsnum \<times> jsnum)" where
  "requestLocation sensor vendorsQuery statusQuery locationData page =
     (case sensor of
        Position lat lng \<Rightarrow>
          (fetchVendors lat lng vendorsQuery statusQuery locationData
             (page\<lparr>userLocation := Some (lat, lng)\<rparr>), (lat, lng))
      | PositionError \<Rightarrow>
          (fetchVendors (fst defaultLocation) (snd defaultLocation) vendorsQuery statusQuery
             locationData (page\<lparr>userLocation := Some defaultLocation\<rparr>), defaultLocation)
      | Unsupported \<Rightarrow>
          (fetchVendors (fst defaultLocation) (snd defaultLocation) vendorsQuery statusQuery
             locationData (page\<lparr>userLocation := Some defaultLocation\<rparr>), defaultLocation))"

text \<open>The predicate of \<open>vendors.filter\<close> and the filtered list.\<close>

definition keepVendor :: "bool \<Rightarrow> string list \<Rightarrow> VendorWithLocation \<Rightarrow> bool" where
  "keepVendor liveOnly selected vendor =
     (if liveOnly \<and> vwl_operational_status vendor = offline then False
      else if 0 < length selected then
        (let hasMatchingCuisine =
               list_ex (\<lambda>type. List.member selected type) (cuisine_types vendor)
         in if \<not> hasMatchingCuisine then False else True)
      else True)"

definition filteredVendors :: "SearchPage \<Rightarrow> VendorWithLocation list" where
  "filteredVendors page =
     filter (keepVendor (showLiveOnly page) (selectedCuisines page)) (vendors page)"

section \<open>The go-live button: the status controller\<close>

subsection \<open>The store as the controller sees it\<close>

text \<open>
  \<open>update(updates)\<close> on \<open>vendor_status\<close>: a key that the object does not have leaves
  the column alone (\<open>None\<close>), a key set to \<open>null\<close> clears it (\<open>Some None\<close>).
\<close>

record status_updates =
  upd_operational_status :: VendorOperationalStatus
  upd_current_location_id :: "string option option"
  upd_went_live_at :: "string option option"

datatype db_call = InsertLocation string | UpdateVendorStatus string status_updates

text \<open>
  The two tables the controller writes, and \<open>calls\<close>: the write requests it has
  sent, in the order in which it sent them (whether they succeeded or not).
\<close>

record store =
  locations :: "Location list"
  vendor_status :: "VendorStatus list"
  calls :: "db_call list"

definition apply_updates :: "status_updates \<Rightarrow> VendorStatus \<Rightarrow> VendorStatus" where
  "apply_updates u r =
     r\<lparr>operational_status := upd_operational_status u,
       current_location_id :=
         (case upd_current_location_id u of None \<Rightarrow> current_location_id r | Some v \<Rightarrow> v),
       went_live_at :=
         (case upd_went_live_at u of None \<Rightarrow> went_live_at r | Some v \<Rightarrow> v)\<rparr>"

text \<open>
  \<open>from('vendor_status').update(u).eq('vendor_id', vid)\<close>. The store decides whether
  the request fails (\<open>failure\<close> is its error); a failed request changes no row.
\<close>

definition update_vendor_status ::
  "string \<Rightarrow> status_updates \<Rightarrow> string option \<Rightarrow> store \<Rightarrow> string option \<times> store" where
  "update_vendor_status vid u failure s =
     (case failure of
        Some e \<Rightarrow> (Some e, s\<lparr>calls := calls s @ [UpdateVendorStatus vid u]\<rparr>)
      | None \<Rightarrow>
          (None,
           s\<lparr>vendor_status :=
                map (\<lambda>r. if vendor_id r = vid then apply_updates u r else r) (vendor_status s),
              calls := calls s @ [UpdateVendorStatus vid u]\<rparr>))"

text \<open>
  \<open>from('locations').insert(row).select().single()\<close>. The store answers with its
  error or with the id it gave the new row; \<open>row\<close> comes without an id.
\<close>

definition insert_location ::
  "Location \<Rightarrow> string db_result \<Rightarrow> store \<Rightarrow> Location db_result \<times> store" where
  "insert_location row answer s =
     (case answer of
        DbError e \<Rightarrow> (DbError e, s\<lparr>calls := calls s @ [InsertLocation (loc_vendor_id row)]\<rparr>)
      | DbData new_id \<Rightarrow>
          (DbData (row\<lparr>loc_id := new_id\<rparr>),
           s\<lparr>locations := locations s @ [row\<lparr>loc_id := new_id\<rparr>],
             calls := calls s @ [InsertLocation (loc_vendor_id row)]\<rparr>))"

subsection \<open>The component\<close>

record SelectedLocation =
  sel_address :: string
  sel_latitude :: jsnum
  sel_longitude :: jsnum
  sel_city :: "string option"
  sel_state :: "string option"
  sel_zip :: "string option"

text \<open>
  The calls of \<open>alert\<close>, one constructor for each message of the component:
  \<^item> \<open>GeolocationUnsupported\<close>: Geolocation is not supported by your browser. Please use
    manual location entry.
  \<^item> \<open>GeolocationFailed\<close>: Could not get your location. Please search for it manually.
  \<^item> \<open>NoLocationSelected\<close>: Please search and select a location first
  \<^item> \<open>GoLiveFailed\<close>: Failed to go live. Please try again.
  \<^item> \<open>NowLive\<close>: You are now live!
  \<^item> \<open>NowClosingSoon\<close>: Status updated to Closing Soon
  \<^item> \<open>NowOffline\<close>: You are now offline. See you next time!
  \<^item> \<open>UpdateFailed\<close>: Failed to update status. Please try again.
\<close>

datatype alert =
    GeolocationUnsupported | GeolocationFailed | NoLocationSelected | GoLiveFailed
  | NowLive | NowClosingSoon | NowOffline | UpdateFailed

text \<open>The state of the component (its \<open>useState\<close> cells) and the alerts it has shown.\<close>

record GoLiveButton =
  vendorId :: string
  status :: VendorOperationalStatus
  loading :: bool
  locationNotes :: string
  showLocationInput :: bool
  useManualLocation :: bool
  selectedLocation :: "SelectedLocation option"
  alerts :: "alert list"

definition mount :: "string \<Rightarrow> GoLiveButton" where
  "mount vid =
     \<lparr>vendorId = vid, status = offline, loading = False, locationNotes = [],
      showLocationInput = False, useManualLocation = False, selectedLocation = None,
      alerts = []\<rparr>"

text \<open>\<open>.single()\<close>: the row when exactly one row matches, an error otherwise.\<close>

definition single :: "'a list \<Rightarrow> 'a option" where
  "single rows = (case rows of [r] \<Rightarrow> Some r | _ \<Rightarrow> None)"

text \<open>\<open>fetchStatus\<close>; \<open>reachable\<close> is whether the store answers at all.\<close>

definition fetchStatus :: "bool \<Rightarrow> GoLiveButton \<times> store \<Rightarrow> GoLiveButton \<times> store" where
  "fetchStatus reachable w =
     (case w of (c, s) \<Rightarrow>
        (case (if reachable
               then single (filter (\<lambda>r. vendor_id r = vendorId c) (vendor_status s))
               else None) of
           None \<Rightarrow> (c, s)
         | Some data \<Rightarrow> (c\<lparr>status := operational_status data\<rparr>, s)))"

definition updateStatus ::
  "VendorOperationalStatus \<Rightarrow> string option \<Rightarrow> GoLiveButton \<times> store
     \<Rightarrow> GoLiveButton \<times> store" where
  "updateStatus newStatus failure w =
     (case w of (c, s) \<Rightarrow>
        (let c1 = c\<lparr>loading := True\<rparr>;
             updates =
               (if newStatus = offline
                then \<lparr>upd_operational_status = newStatus,
                      upd_current_location_id = Some None, upd_went_live_at = Some None\<rparr>
                else \<lparr>upd_operational_status = newStatus,
                      upd_current_location_id = None, upd_went_live_at = None\<rparr>)
         in case update_vendor_status (vendorId c1) updates failure s of
              (Some error, s1) \<Rightarrow>
                (c1\<lparr>alerts := alerts c1 @ [UpdateFailed], loading := False\<rparr>, s1)
            | (None, s1) \<Rightarrow>
                (let c2 = c1\<lparr>status := newStatus\<rparr>;
                     c3 = (if newStatus = closing_soon
                           then c2\<lparr>alerts := alerts c2 @ [NowClosingSoon]\<rparr>
                           else if newStatus = offline
                           then c2\<lparr>alerts := alerts c2 @ [NowOffline]\<rparr>
                           else c2)
                 in (c3\<lparr>loading := False\<rparr>, s1))))"

definition handleStatusChange ::
  "string option \<Rightarrow> GoLiveButton \<times> store \<Rightarrow> GoLiveButton \<times> store" where
  "handleStatusChange failure w =
     (case w of (c, s) \<Rightarrow>
        if status c = offline then (c\<lparr>showLocationInput := True\<rparr>, s)
        else if status c = live then updateStatus closing_soon failure (c, s)
        else if status c = closing_soon then updateStatus offline failure (c, s)
        else (c, s))"

text \<open>
  \<open>createLocationAndGoLive\<close>. \<open>inserted\<close> and \<open>failure\<close> are the answers of the store
  to the insert and to the update, \<open>now\<close> is \<open>new Date().toISOString()\<close>.
\<close>

definition createLocationAndGoLive ::
  "jsnum \<Rightarrow> jsnum \<Rightarrow> string option \<Rightarrow> string option \<Rightarrow> string option \<Rightarrow> string option
     \<Rightarrow> string db_result \<Rightarrow> string option \<Rightarrow> string
     \<Rightarrow> GoLiveButton \<times> store \<Rightarrow> GoLiveButton \<times> store" where
  "createLocationAndGoLive lat lng addr cty st zp inserted failure now w =
     (case w of (c, s) \<Rightarrow>
        (case insert_location
                \<lparr>loc_id = [], loc_vendor_id = vendorId c, latitude = lat, longitude = lng,
                 address = or_undefined addr, city = or_undefined cty,
                 state = or_undefined st, zip_code = or_undefined zp,
                 loc_notes = or_undefined (Some (locationNotes c)),
                 is_current_location = True\<rparr>
                inserted s of
           (DbError locationError, s1) \<Rightarrow>
             (c\<lparr>alerts := alerts c @ [GoLiveFailed], loading := False\<rparr>, s1)
         | (DbData new_location, s1) \<Rightarrow>
             (case update_vendor_status (vendorId c)
                     \<lparr>upd_operational_status = live,
                      upd_current_location_id = Some (Some (loc_id new_location)),
                      upd_went_live_at = Some (Some now)\<rparr>
                     failure s1 of
                (Some statusError, s2) \<Rightarrow>
                  (c\<lparr>alerts := alerts c @ [GoLiveFailed], loading := False\<rparr>, s2)
              | (None, s2) \<Rightarrow>
                  (c\<lparr>status := live, showLocationInput := False, useManualLocation := False,
                     locationNotes := [], selectedLocation := None,
                     alerts := alerts c @ [NowLive], loading := False\<rparr>, s2))))"

text \<open>
  \<open>goLiveWithGPS\<close>. Its \<open>catch\<close> is for an exception of the call of
  \<open>getCurrentPosition\<close> itself, which the three answers of the sensor do not include.
\<close>

definition goLiveWithGPS ::
  "geolocation \<Rightarrow> string db_result \<Rightarrow> string option \<Rightarrow> string
     \<Rightarrow> GoLiveButton \<times> store \<Rightarrow> GoLiveButton \<times> store" where
  "goLiveWithGPS sensor inserted failure now w =
     (case w of (c, s) \<Rightarrow>
        (let c1 = c\<lparr>loading := True\<rparr>
         in case sensor of
              Unsupported \<Rightarrow>
                (c1\<lparr>alerts := alerts c1 @ [GeolocationUnsupported],
                    useManualLocation := True, loading := False\<rparr>, s)
            | Position lat lng \<Rightarrow>
                createLocationAndGoLive lat lng None None None None inserted failure now (c1, s)
            | PositionError \<Rightarrow>
                (c1\<lparr>alerts := alerts c1 @ [GeolocationFailed],
                    useManualLocation := True, loading := False\<rparr>, s)))"

definition goLiveWithSearchedLocation ::
  "string db_result \<Rightarrow> string option \<Rightarrow> string
     \<Rightarrow> GoLiveButton \<times> store \<Rightarrow> GoLiveButton \<times> store" where
  "goLiveWithSearchedLocation inserted failure now w =
     (case w of (c, s) \<Rightarrow>
        (case selectedLocation c of
           None \<Rightarrow> (c\<lparr>alerts := alerts c @ [NoLocationSelected]\<rparr>, s)
         | Some sel \<Rightarrow>
             createLocationAndGoLive (sel_latitude sel) (sel_longitude sel)
               (Some (sel_address sel)) (sel_city sel) (sel_state sel) (sel_zip sel)
               inserted failure now (c\<lparr>loading := True\<rparr>, s)))"

subsection \<open>What a vendor can do with the component\<close>

text \<open>
  The handlers that the rendered buttons and inputs call, each with the answers of the
  sensor and the store that it will meet, and \<open>Remount\<close>: the page is loaded again.
\<close>

datatype event =
    FetchStatus bool
  | HandleStatusChange "string option"
  | GoLiveWithGPS geolocation "string db_result" "string option" string
  | GoLiveWithSearchedLocation "string db_result" "string option" string
  | SetLocationNotes string
  | SearchForLocation
  | Cancel
  | OnLocationSelect SelectedLocation
  | BackToGPS
  | Remount

fun step :: "event \<Rightarrow> GoLiveButton \<times> store \<Rightarrow> GoLiveButton \<times> store" where
  "step (FetchStatus reachable) w = fetchStatus reachable w"
| "step (HandleStatusChange failure) w = handleStatusChange failure w"
| "step (GoLiveWithGPS sensor inserted failure now) w = goLiveWithGPS sensor inserted failure now w"
| "step (GoLiveWithSearchedLocation inserted failure now) w =
     goLiveWithSearchedLocation inserted failure now w"
| "step (SetLocationNotes t) (c, s) = (c\<lparr>locationNotes := t\<rparr>, s)"
| "step SearchForLocation (c, s) = (c\<lparr>useManualLocation := True\<rparr>, s)"
| "step Cancel (c, s) = (c\<lparr>showLocationInput := False, locationNotes := []\<rparr>, s)"
| "step (OnLocationSelect sel) (c, s) = (c\<lparr>selectedLocation := Some sel\<rparr>, s)"
| "step BackToGPS (c, s) = (c\<lparr>useManualLocation := False, selectedLocation := None\<rparr>, s)"
| "step Remount (c, s) = (mount (vendorId c), s)"

fun run :: "event list \<Rightarrow> GoLiveButton \<times> store \<Rightarrow> GoLiveButton \<times> store" where
  "run [] w = w"
| "run (e # es) w = run es (step e w)"

text \<open>
  The store after onboarding (\<open>vendor/onboarding\<close> inserts the status row with
  \<open>is_live: false\<close> and \<open>operational_status: 'offline'\<close>, the other columns null).
\<close>

definition onboarded :: "string \<Rightarrow> store" where
  "onboarded vid =
     \<lparr>locations = [],
      vendor_status =
        [\<lparr>vendor_id = vid, is_live = False, operational_status = offline,
          went_live_at = None, current_location_id = None\<rparr>],
      calls = []\<rparr>"

section \<open>Notions used to state the properties of the search page\<close>

text \<open>A vendor whose distance, when it has one, is a finite number.\<close>

definition finite_distance :: "VendorWithLocation \<Rightarrow> bool" where
  "finite_distance v =
     (case distance_miles v of None \<Rightarrow> True | Some (Fin d) \<Rightarrow> True | Some _ \<Rightarrow> False)"

text \<open>
  The two keys of the ranking as one key, ordered lexicographically: the liveness
  bucket (\<open>False\<close>, which comes first, for a vendor that is not offline), then whether
  the distance is absent, then the distance.
\<close>

definition rank_key :: "VendorWithLocation \<Rightarrow> bool \<times> bool \<times> real" where
  "rank_key v =
     (vwl_operational_status v = offline,
      (case distance_miles v of Some (Fin d) \<Rightarrow> (False, d) | _ \<Rightarrow> (True, 0)))"

text \<open>\<open>a <= b\<close> on JavaScript numbers, and the order on distances with the absent one last.\<close>

fun js_le :: "jsnum \<Rightarrow> jsnum \<Rightarrow> bool" where
  "js_le NaN b = False"
| "js_le a NaN = False"
| "js_le (Fin a) (Fin b) = (a \<le> b)"
| "js_le NInf b = True"
| "js_le a PInf = True"
| "js_le a b = False"

fun distance_le :: "jsnum option \<Rightarrow> jsnum option \<Rightarrow> bool" where
  "distance_le d None = True"
| "distance_le None (Some b) = False"
| "distance_le (Some a) (Some b) = js_le a b"

text \<open>
  The order of the specification between a vendor \<open>a\<close> and a vendor \<open>b\<close> that stands
  later in the ranked list: an offline vendor is followed by offline vendors only, and
  inside a bucket the distances ascend, the absent ones last.
\<close>

definition ranked_before :: "VendorWithLocation \<Rightarrow> VendorWithLocation \<Rightarrow> bool" where
  "ranked_before a b =
     ((vwl_operational_status a = offline \<longrightarrow> vwl_operational_status b = offline)
      \<and> ((vwl_operational_status a = offline) = (vwl_operational_status b = offline)
           \<longrightarrow> distance_le (distance_miles a) (distance_miles b)))"

text \<open>The first key alone: an offline vendor is followed by offline vendors only.\<close>

definition offline_last :: "VendorWithLocation \<Rightarrow> VendorWithLocation \<Rightarrow> bool" where
  "offline_last a b =
     (vwl_operational_status a = offline \<longrightarrow> vwl_operational_status b = offline)"

text \<open>The vendors of a list that are in bucket \<open>b\<close> with distance \<open>d\<close>, in their order.\<close>

definition tied :: "bool \<Rightarrow> jsnum option \<Rightarrow> VendorWithLocation list \<Rightarrow> VendorWithLocation list" where
  "tied b d xs =
     filter (\<lambda>v. (vwl_operational_status v = offline) = b \<and> distance_miles v = d) xs"

text \<open>A ranked vendor with the given name, state and distance, for concrete lists.\<close>

definition sample_vendor ::
  "string \<Rightarrow> VendorOperationalStatus \<Rightarrow> string list \<Rightarrow> jsnum option \<Rightarrow> VendorWithLocation" where
  "sample_vendor name st tags d =
     \<lparr>vwl_id = name, business_name = name, description = [], cuisine_types = tags,
      logo_url = None, vwl_operational_status = st, location = None, distance_miles = d\<rparr>"

definition sample_candidates :: "VendorWithLocation list" where
  "sample_candidates =
     [sample_vendor ''near_offline'' offline [''Italian''] (Some (Fin 1)),
      sample_vendor ''far_live'' live [''Mexican'', ''BBQ''] (Some (Fin 50)),
      sample_vendor ''closing_nowhere'' closing_soon [] None,
      sample_vendor ''live_b'' live [''BBQ''] (Some (Fin 2.3)),
      sample_vendor ''live_a'' live [''Mexican''] (Some (Fin 0.9)),
      sample_vendor ''offline_nowhere'' offline [''Mexican''] None,
      sample_vendor ''live_nowhere'' live [''Vegan''] None]"

text \<open>
  Concrete answers of the store for the search page: one approved vendor, a status row
  for it that points at the location \<open>L1\<close>, a store that has no location row at
  all, and one whose row \<open>L1\<close> has no latitude (the column is \<open>null\<close>).
\<close>

definition sample_row :: vendor_row where
  "sample_row =
     \<lparr>row_id = ''V1'', row_business_name = ''Taco Truck'', row_description = [],
      row_cuisine_types = Some [''Mexican''], row_logo_url = None\<rparr>"

definition sample_status :: VendorStatus where
  "sample_status =
     \<lparr>vendor_id = ''V1'', is_live = False, operational_status = live,
      went_live_at = Some ''2024-01-01T00:00:00.000Z'', current_location_id = Some ''L1''\<rparr>"

definition no_locations :: "string \<Rightarrow> location_row option" where
  "no_locations lid = None"

definition malformed_locations :: "string \<Rightarrow> location_row option" where
  "malformed_locations lid =
     (if lid = ''L1''
      then Some \<lparr>ld_latitude = JSNull, ld_longitude = JSNumber (Fin (- 86.15)),
                 ld_address = None, ld_notes = None\<rparr>
      else None)"

text \<open>Three live vendors, the second with a distance that is not a number.\<close>

definition nan_candidates :: "VendorWithLocation list" where
  "nan_candidates =
     [sample_vendor ''five_miles'' live [] (Some (Fin 5)),
      sample_vendor ''not_a_number'' live [] (Some NaN),
      sample_vendor ''one_mile'' live [] (Some (Fin 1))]"

definition empty_page :: SearchPage where
  "empty_page =
     \<lparr>vendors = [], page_loading = True, userLocation = None, selectedCuisines = [],
      showLiveOnly = False\<rparr>"

section \<open>Notions used to state the properties of the status controller\<close>

text \<open>The status rows of a vendor, and the states that they store.\<close>

definition rows_of :: "string \<Rightarrow> store \<Rightarrow> VendorStatus list" where
  "rows_of vid s = filter (\<lambda>r. vendor_id r = vid) (vendor_status s)"

definition stored_status :: "string \<Rightarrow> store \<Rightarrow> VendorOperationalStatus list" where
  "stored_status vid s = map operational_status (rows_of vid s)"

text \<open>The cycle of the specification: offline, live, closing soon, offline.\<close>

fun next_status :: "VendorOperationalStatus \<Rightarrow> VendorOperationalStatus" where
  "next_status offline = live"
| "next_status live = closing_soon"
| "next_status closing_soon = offline"

text \<open>
  The invariant of the specification on a status row: it has a current location iff
  its state is live or closing soon, and it has a go-live time iff its state is live or
  closing soon.
\<close>

definition status_consistent :: "VendorStatus \<Rightarrow> bool" where
  "status_consistent r =
     (((current_location_id r \<noteq> None)
         = (operational_status r = live \<or> operational_status r = closing_soon))
      \<and> ((went_live_at r \<noteq> None)
         = (operational_status r = live \<or> operational_status r = closing_soon)))"

text \<open>
  What holds of a component and the store between two events: the component belongs to
  the vendor, every status row of the vendor is consistent, and the displayed status is
  the stored one unless it is (still) the initial \<open>offline\<close>.
\<close>

definition display_fits :: "string \<Rightarrow> GoLiveButton \<times> store \<Rightarrow> bool" where
  "display_fits vid w =
     (vendorId (fst w) = vid
      \<and> list_all (\<lambda>r. status_consistent r
                       \<and> (status (fst w) = offline \<or> status (fst w) = operational_status r))
           (rows_of vid (snd w)))"

text \<open>The events with which a vendor goes live.\<close>

fun goes_live :: "event \<Rightarrow> bool" where
  "goes_live (GoLiveWithGPS sensor inserted failure now) = True"
| "goes_live (GoLiveWithSearchedLocation inserted failure now) = True"
| "goes_live e = False"

text \<open>
  The error \<open>LocationUnavailable\<close> of the specification, as the component reports it:
  one of the three alerts that ask for another way to give the location.
\<close>

definition LocationUnavailable :: "alert \<Rightarrow> bool" where
  "LocationUnavailable a =
     (a = GeolocationUnsupported \<or> a = GeolocationFailed \<or> a = NoLocationSelected)"

text \<open>Concrete values for the controller: a place picked in the search box, two sessions.\<close>

definition sample_selection :: SelectedLocation where
  "sample_selection =
     \<lparr>sel_address = ''200 E Washington St'', sel_latitude = Fin 39.7684,
      sel_longitude = Fin (- 86.1581), sel_city = Some ''Indianapolis'',
      sel_state = Some ''IN'', sel_zip = Some ''46204''\<rparr>"

definition first_session :: "event list" where
  "first_session =
     [FetchStatus True,
      HandleStatusChange None,
      GoLiveWithGPS (Position (Fin 39.77) (Fin (- 86.15))) (DbData ''L0'') None ''t0'',
      HandleStatusChange None]"

definition stale_session :: "event list" where
  "stale_session =
     [Remount,
      FetchStatus False,
      HandleStatusChange None,
      SearchForLocation,
      OnLocationSelect sample_selection,
      GoLiveWithSearchedLocation (DbData ''L1'') None ''t1'']"

section \<open>Properties of the ranking\<close>

lemma compareVendors_rank_key:
  assumes "finite_distance a" "finite_distance b"
  shows "js_positive (compareVendors a b) = (\<not> rank_key a \<le> rank_key b)"
proof (cases "distance_miles a")
  case None
  note a = this
  show ?thesis
  proof (cases "distance_miles b")
    case None
    with a show ?thesis
      by (auto simp: compareVendors_def rank_key_def nullish_def js_sub_def Let_def)
  next
    case (Some y)
    with assms(2) obtain r where "y = Fin r" by (cases y) (auto simp: finite_distance_def)
    with a Some show ?thesis
      by (auto simp: compareVendors_def rank_key_def nullish_def js_sub_def Let_def)
  qed
next
  case (Some x)
  with assms(1) obtain q where x: "x = Fin q" by (cases x) (auto simp: finite_distance_def)
  note a = Some
  show ?thesis
  proof (cases "distance_miles b")
    case None
    with a x show ?thesis
      by (auto simp: compareVendors_def rank_key_def nullish_def js_sub_def Let_def)
  next
    case (Some y)
    with assms(2) obtain r where "y = Fin r" by (cases y) (auto simp: finite_distance_def)
    with a x Some show ?thesis
      by (auto simp: compareVendors_def rank_key_def nullish_def js_sub_def Let_def)
  qed
qed

lemma sort_insert_insort_key:
  assumes "finite_distance x" "\<forall>y\<in>set ys. finite_distance y"
  shows "sort_insert compareVendors x ys = insort_key rank_key x ys"
  using assms(2)
proof (induction ys)
  case Nil
  show ?case by simp
next
  case (Cons y ys)
  have "js_positive (compareVendors x y) = (\<not> rank_key x \<le> rank_key y)"
    using compareVendors_rank_key[OF assms(1)] Cons.prems by simp
  with Cons show ?case by simp
qed

lemma array_sort_sort_key:
  assumes "\<forall>v\<in>set xs. finite_distance v"
  shows "array_sort compareVendors xs = sort_key rank_key xs"
  using assms
proof (induction xs)
  case Nil
  show ?case by simp
next
  case (Cons x xs)
  then have ih: "array_sort compareVendors xs = sort_key rank_key xs" by simp
  have "\<forall>y\<in>set (sort_key rank_key xs). finite_distance y" using Cons.prems by simp
  then show ?case using Cons.prems by (simp add: ih sort_insert_insort_key)
qed

lemma rank_key_ranked_before:
  assumes "finite_distance a" "finite_distance b" "rank_key a \<le> rank_key b"
  shows "ranked_before a b"
proof -
  obtain da where da: "distance_miles a = None \<or> distance_miles a = Some (Fin da)"
    using assms(1) by (cases "distance_miles a"; simp add: finite_distance_def split: jsnum.splits) 
  obtain db where db: "distance_miles b = None \<or> distance_miles b = Some (Fin db)"
    using assms(2) by (cases "distance_miles b"; simp add: finite_distance_def split: jsnum.splits) 
  show ?thesis
    using assms(3) da db by (auto simp: ranked_before_def rank_key_def)
qed

lemma tied_rank_key:
  assumes "\<forall>v\<in>set xs. finite_distance v"
  shows "tied b d xs =
     (case d of None \<Rightarrow> filter (\<lambda>v. rank_key v = (b, True, 0)) xs
              | Some (Fin r) \<Rightarrow> filter (\<lambda>v. rank_key v = (b, False, r)) xs
              | Some _ \<Rightarrow> [])"
proof -
  have k: "\<And>v. v \<in> set xs \<Longrightarrow>
      ((vwl_operational_status v = offline) = b \<and> distance_miles v = d) =
      (case d of None \<Rightarrow> rank_key v = (b, True, 0)
              | Some (Fin r) \<Rightarrow> rank_key v = (b, False, r)
              | Some _ \<Rightarrow> False)"
  proof -
    fix v assume "v \<in> set xs"
    then have f: "finite_distance v" using assms by simp
    show "((vwl_operational_status v = offline) = b \<and> distance_miles v = d) =
      (case d of None \<Rightarrow> rank_key v = (b, True, 0)
              | Some (Fin r) \<Rightarrow> rank_key v = (b, False, r)
              | Some _ \<Rightarrow> False)"
      using f by (auto simp: finite_distance_def rank_key_def split: option.splits jsnum.splits)
  qed
  have step: "filter (\<lambda>v. (vwl_operational_status v = offline) = b \<and> distance_miles v = d) xs
      = filter (\<lambda>v. case d of None \<Rightarrow> rank_key v = (b, True, 0)
              | Some (Fin r) \<Rightarrow> rank_key v = (b, False, r)
              | Some _ \<Rightarrow> False) xs"
    by (rule filter_cong[OF refl]) (rule k)
  show ?thesis
    unfolding tied_def step by (simp split: option.splits jsnum.splits)
qed

lemma tied_array_sort:
  assumes "\<forall>v\<in>set xs. finite_distance v"
  shows "tied b d (array_sort compareVendors xs) = tied b d xs"
proof -
  have s: "\<forall>v\<in>set (sort_key rank_key xs). finite_distance v" using assms by simp
  show ?thesis
    unfolding array_sort_sort_key[OF assms] tied_rank_key[OF s] tied_rank_key[OF assms]
    by (simp add: sort_key_stable split: option.splits jsnum.splits)
qed

lemma sorted_ranked:
  assumes "\<forall>v\<in>set xs. finite_distance v"
  shows "sorted_wrt ranked_before (array_sort compareVendors xs)"
proof -
  have "sorted (map rank_key (sort_key rank_key xs))" by (rule sorted_sort_key)
  then have "sorted_wrt (\<lambda>a b. rank_key a \<le> rank_key b) (sort_key rank_key xs)"
    by (simp add: sorted_map)
  then have "sorted_wrt ranked_before (sort_key rank_key xs)"
    by (rule sorted_wrt_mono_rel[rotated]) (use assms in \<open>auto intro: rank_key_ranked_before\<close>)
  then show ?thesis by (simp add: array_sort_sort_key[OF assms])
qed

text \<open>
  The language leaves the choice of the sorting algorithm open; for these lists it
  makes no difference: a list that is a stable rearrangement of the candidates in the
  order of the key is the list that the model computes.
\<close>

lemma array_sort_unique:
  assumes "\<forall>v\<in>set xs. finite_distance v"
    and "mset ys = mset xs"
    and "sorted (map rank_key ys)"
    and "\<And>k. k \<in> set ys \<Longrightarrow>
           filter (\<lambda>x. rank_key k = rank_key x) ys = filter (\<lambda>x. rank_key k = rank_key x) xs"
  shows "ys = array_sort compareVendors xs"
proof -
  have "sort_key rank_key xs = ys"
    using assms(2) assms(4) assms(3) by (rule properties_for_sort_key)
  then show ?thesis by (simp add: array_sort_sort_key[OF assms(1)])
qed

text \<open>On every list the sort keeps the vendors and puts the offline ones last.\<close>

lemma mset_sort_insert: "mset (sort_insert cmp x ys) = add_mset x (mset ys)"
  by (induction ys) simp_all

lemma mset_array_sort: "mset (array_sort cmp xs) = mset xs"
  by (induction xs) (simp_all add: mset_sort_insert)

lemma set_sort_insert: "set (sort_insert cmp x ys) = insert x (set ys)"
  using mset_sort_insert[of cmp x ys, THEN arg_cong, of set_mset] by simp

lemma positive_offline_last: "js_positive (compareVendors x y) \<Longrightarrow> offline_last y x"
  by (auto simp: compareVendors_def offline_last_def Let_def split: if_splits)

lemma not_positive_offline_last: "\<not> js_positive (compareVendors x y) \<Longrightarrow> offline_last x y"
  by (auto simp: compareVendors_def offline_last_def Let_def split: if_splits)

lemma offline_last_trans: "offline_last a b \<Longrightarrow> offline_last b c \<Longrightarrow> offline_last a c"
  by (simp add: offline_last_def)

lemma offline_last_sort_insert:
  assumes "sorted_wrt offline_last ys"
  shows "sorted_wrt offline_last (sort_insert compareVendors x ys)"
  using assms
proof (induction ys)
  case Nil
  show ?case by simp
next
  case (Cons y ys)
  show ?case
  proof (cases "js_positive (compareVendors x y)")
    case True
    from Cons have "sorted_wrt offline_last (sort_insert compareVendors x ys)"
      and "\<forall>z\<in>set ys. offline_last y z" by simp_all
    with True positive_offline_last[OF True] show ?thesis
      by (simp add: set_sort_insert)
  next
    case False
    from Cons.prems have "\<forall>z\<in>set ys. offline_last y z" by simp
    then have "\<forall>z\<in>set ys. offline_last x z"
      using not_positive_offline_last[OF False] offline_last_trans by blast
    with False Cons.prems not_positive_offline_last[OF False] show ?thesis by simp
  qed
qed

lemma offline_last_array_sort: "sorted_wrt offline_last (array_sort compareVendors xs)"
  by (induction xs) (simp_all add: offline_last_sort_insert)

text \<open>
  A coordinate that reads as \<open>NaN\<close> (a missing field, a text that spells no number)
  gives the vendor the distance \<open>NaN\<close>, with which it enters the sort.
\<close>

lemma calculateDistance_NaN: "calculateDistance a b NaN d = NaN"
  unfolding calculateDistance_def toRad_def Math_PI_def js_sub_def Let_def
  by (cases a; cases b; cases d) simp_all

lemma vendorEntry_NaN_distance:
  assumes "current_location_id srow = Some lid" "lid \<noteq> []" "locationData lid = Some ld"
    and "ToNumber (ld_latitude ld) = NaN"
  shows "distance_miles (vendorEntry userLat userLng locationData vendor srow) = Some NaN"
  using assms by (simp add: vendorEntry_def calculateDistance_NaN)

text \<open>
  Claim C3 fails as it is stated: a distance that is not a number (the loop of
  \<open>fetchVendors\<close> gives one to a vendor whose coordinates do not read as numbers)
  compares as equal to every other distance. The sort then leaves the three live vendors
  of \<open>nan_candidates\<close> where they are, the vendor at five miles before the vendor
  at one mile.
\<close>

theorem nan_distance_breaks_distance_order:
  "array_sort compareVendors nan_candidates =
     [sample_vendor ''five_miles'' live [] (Some (Fin 5)),
      sample_vendor ''not_a_number'' live [] (Some NaN),
      sample_vendor ''one_mile'' live [] (Some (Fin 1))]
   \<and> \<not> ranked_before (sample_vendor ''five_miles'' live [] (Some (Fin 5)))
                      (sample_vendor ''one_mile'' live [] (Some (Fin 1)))
   \<and> \<not> sorted_wrt ranked_before (array_sort compareVendors nan_candidates)"
  by (simp add: nan_candidates_def sample_vendor_def compareVendors_def nullish_def js_sub_def
      ranked_before_def)

text \<open>
  Claim C3, amended. On every list of candidates the sort keeps all the vendors and
  every vendor that is not offline stands before every offline one, whatever the
  distances. On every list whose distances are finite numbers or absent, the sort is
  moreover the stable sort by one linearly ordered key made of the liveness bucket and
  the distance: inside a bucket the distances ascend with the absent ones last, and the
  vendors of one bucket with one distance (or without any) keep the order they had.
\<close>

theorem ranking_two_keys_stable:
  "mset (array_sort compareVendors xs) = mset xs
   \<and> sorted_wrt offline_last (array_sort compareVendors xs)
   \<and> ((\<forall>v\<in>set xs. finite_distance v) \<longrightarrow>
        array_sort compareVendors xs = sort_key rank_key xs
        \<and> sorted_wrt ranked_before (array_sort compareVendors xs)
        \<and> (\<forall>b d. tied b d (array_sort compareVendors xs) = tied b d xs))"
  using mset_array_sort[of compareVendors xs] offline_last_array_sort[of xs]
    array_sort_sort_key[of xs] sorted_ranked[of xs] tied_array_sort[of xs]
  by blast

theorem ranking_two_keys_stable_witness:
  "array_sort compareVendors sample_candidates =
     [sample_vendor ''live_a'' live [''Mexican''] (Some (Fin 0.9)),
      sample_vendor ''live_b'' live [''BBQ''] (Some (Fin 2.3)),
      sample_vendor ''far_live'' live [''Mexican'', ''BBQ''] (Some (Fin 50)),
      sample_vendor ''closing_nowhere'' closing_soon [] None,
      sample_vendor ''live_nowhere'' live [''Vegan''] None,
      sample_vendor ''near_offline'' offline [''Italian''] (Some (Fin 1)),
      sample_vendor ''offline_nowhere'' offline [''Mexican''] None]
   \<and> sorted_wrt offline_last (array_sort compareVendors sample_candidates)
   \<and> sorted_wrt ranked_before (array_sort compareVendors sample_candidates)
   \<and> tied False None (array_sort compareVendors sample_candidates)
       = tied False None sample_candidates"
proof -
  have f: "\<forall>v\<in>set sample_candidates. finite_distance v"
    by (simp add: sample_candidates_def sample_vendor_def finite_distance_def)
  have e: "array_sort compareVendors sample_candidates =
     [sample_vendor ''live_a'' live [''Mexican''] (Some (Fin 0.9)),
      sample_vendor ''live_b'' live [''BBQ''] (Some (Fin 2.3)),
      sample_vendor ''far_live'' live [''Mexican'', ''BBQ''] (Some (Fin 50)),
      sample_vendor ''closing_nowhere'' closing_soon [] None,
      sample_vendor ''live_nowhere'' live [''Vegan''] None,
      sample_vendor ''near_offline'' offline [''Italian''] (Some (Fin 1)),
      sample_vendor ''offline_nowhere'' offline [''Mexican''] None]"
    by (simp add: sample_candidates_def sample_vendor_def compareVendors_def nullish_def
        js_sub_def)
  from ranking_two_keys_stable [of sample_candidates] f have
    "sorted_wrt offline_last (array_sort compareVendors sample_candidates)"
    "sorted_wrt ranked_before (array_sort compareVendors sample_candidates)"
    "tied False None (array_sort compareVendors sample_candidates)
       = tied False None sample_candidates"
    by blast+
  with e show ?thesis by blast
qed

section \<open>Properties of the filters and of the list that is ranked\<close>

lemma keepVendor_iff:
  "keepVendor liveOnly selected v =
     (\<not> (liveOnly \<and> vwl_operational_status v = offline)
      \<and> (selected = [] \<or> set (cuisine_types v) \<inter> set selected \<noteq> {}))"
  by (auto simp: keepVendor_def Let_def list_ex_iff)

lemma keepVendor_fun:
  "keepVendor liveOnly selected =
     (\<lambda>v. \<not> (liveOnly \<and> vwl_operational_status v = offline)
          \<and> (selected = [] \<or> set (cuisine_types v) \<inter> set selected \<noteq> {}))"
  by (rule ext) (rule keepVendor_iff)

lemma length_sort_insert: "length (sort_insert cmp x ys) = Suc (length ys)"
  by (induction ys) simp_all

lemma length_array_sort: "length (array_sort cmp xs) = length xs"
  by (induction xs) (simp_all add: length_sort_insert)

lemma vendorsWithLocation_length:
  "length (vendorsWithLocation userLat userLng smap locationData vendorsData)
     = length (filter (\<lambda>vendor. smap (row_id vendor) \<noteq> None) vendorsData)"
  by (induction vendorsData) (simp_all split: option.splits)

lemma vendorsWithLocation_eq:
  "vendorsWithLocation userLat userLng smap locationData vendorsData
     = map (\<lambda>vendor. vendorEntry userLat userLng locationData vendor (the (smap (row_id vendor))))
         (filter (\<lambda>vendor. smap (row_id vendor) \<noteq> None) vendorsData)"
  by (induction vendorsData) (auto split: option.splits)

text \<open>
  Claim C5. The filtered list is computed from the ranked list (the list that
  \<open>fetchVendors\<close> stored, already sorted) and is a subsequence of it: the vendors it
  keeps are the records of the ranked list, unchanged and in their order. A vendor is
  kept iff it passes both filters: the live-only filter, when it is on, rejects exactly
  the offline vendors; the cuisine filter keeps a vendor iff one of its tags is selected,
  and with no tag selected it keeps every vendor.
\<close>

theorem filteredVendors_subsequence:
  "subseq (filteredVendors page) (vendors page)
   \<and> set (filteredVendors page)
       = {v \<in> set (vendors page).
            \<not> (showLiveOnly page \<and> vwl_operational_status v = offline)
            \<and> (selectedCuisines page = []
                \<or> set (cuisine_types v) \<inter> set (selectedCuisines page) \<noteq> {})}
   \<and> filteredVendors (page\<lparr>showLiveOnly := True, selectedCuisines := []\<rparr>)
       = filter (\<lambda>v. vwl_operational_status v \<noteq> offline) (vendors page)
   \<and> filteredVendors (page\<lparr>selectedCuisines := []\<rparr>)
       = filter (\<lambda>v. \<not> (showLiveOnly page \<and> vwl_operational_status v = offline)) (vendors page)
   \<and> filteredVendors (page\<lparr>showLiveOnly := False, selectedCuisines := []\<rparr>) = vendors page
   \<and> filteredVendors (fetchVendors userLat userLng (DbData vendorsData) (DbData statusData)
                         locationData page)
       = filter (keepVendor (showLiveOnly page) (selectedCuisines page))
           (array_sort compareVendors
              (vendorsWithLocation userLat userLng (statusMap statusData) locationData
                 vendorsData))"
proof -
  have 1: "subseq (filteredVendors page) (vendors page)"
    by (simp add: filteredVendors_def)
  have 2: "set (filteredVendors page)
       = {v \<in> set (vendors page).
            \<not> (showLiveOnly page \<and> vwl_operational_status v = offline)
            \<and> (selectedCuisines page = []
                \<or> set (cuisine_types v) \<inter> set (selectedCuisines page) \<noteq> {})}"
    unfolding filteredVendors_def set_filter keepVendor_iff ..
  have 3: "filteredVendors (page\<lparr>showLiveOnly := True, selectedCuisines := []\<rparr>)
       = filter (\<lambda>v. vwl_operational_status v \<noteq> offline) (vendors page)"
    by (simp add: filteredVendors_def keepVendor_fun)
  have 4: "filteredVendors (page\<lparr>selectedCuisines := []\<rparr>)
       = filter (\<lambda>v. \<not> (showLiveOnly page \<and> vwl_operational_status v = offline)) (vendors page)"
    by (simp add: filteredVendors_def keepVendor_fun)
  have 5: "filteredVendors (page\<lparr>showLiveOnly := False, selectedCuisines := []\<rparr>) = vendors page"
    by (simp add: filteredVendors_def keepVendor_fun)
  have 6: "filteredVendors (fetchVendors userLat userLng (DbData vendorsData) (DbData statusData)
                         locationData page)
       = filter (keepVendor (showLiveOnly page) (selectedCuisines page))
           (array_sort compareVendors
              (vendorsWithLocation userLat userLng (statusMap statusData) locationData
                 vendorsData))"
    by (simp add: filteredVendors_def fetchVendors_def)
  from 1 2 3 4 5 6 show ?thesis by blast
qed

theorem filteredVendors_subsequence_witness:
  "filteredVendors (empty_page\<lparr>vendors := array_sort compareVendors sample_candidates,
                               selectedCuisines := [''Mexican'']\<rparr>)
     = [sample_vendor ''live_a'' live [''Mexican''] (Some (Fin 0.9)),
        sample_vendor ''far_live'' live [''Mexican'', ''BBQ''] (Some (Fin 50)),
        sample_vendor ''offline_nowhere'' offline [''Mexican''] None]
   \<and> subseq (filteredVendors (empty_page\<lparr>vendors := array_sort compareVendors sample_candidates,
                               selectedCuisines := [''Mexican'']\<rparr>))
        (array_sort compareVendors sample_candidates)"
proof -
  have e: "filteredVendors (empty_page\<lparr>vendors := array_sort compareVendors sample_candidates,
                               selectedCuisines := [''Mexican'']\<rparr>)
     = [sample_vendor ''live_a'' live [''Mexican''] (Some (Fin 0.9)),
        sample_vendor ''far_live'' live [''Mexican'', ''BBQ''] (Some (Fin 50)),
        sample_vendor ''offline_nowhere'' offline [''Mexican''] None]"
    by (simp add: filteredVendors_def keepVendor_def empty_page_def sample_candidates_def
        sample_vendor_def compareVendors_def nullish_def js_sub_def)
  show ?thesis
    using e filteredVendors_subsequence [of "empty_page\<lparr>vendors := array_sort compareVendors sample_candidates,
                               selectedCuisines := [''Mexican'']\<rparr>"]
    by simp
qed

text \<open>
  Claim C8 fails as it is stated: the loop of \<open>fetchVendors\<close> skips a candidate that
  has no status row. With one approved vendor, no status row and no filter switched on,
  the ranked list and the displayed list are empty.
\<close>

theorem ranking_skips_vendor_without_status:
  "vendors (fetchVendors (Fin 39.7684) (Fin (- 86.1581)) (DbData [sample_row]) (DbData [])
              no_locations empty_page) = []
   \<and> filteredVendors (fetchVendors (Fin 39.7684) (Fin (- 86.1581)) (DbData [sample_row])
        (DbData []) no_locations empty_page) = []
   \<and> selectedCuisines empty_page = [] \<and> showLiveOnly empty_page = False
   \<and> length [sample_row] = 1"
  by (simp add: fetchVendors_def statusMap_def filteredVendors_def empty_page_def)

text \<open>
  Claim C8, amended. The list that \<open>fetchVendors\<close> ranks has one entry for each
  candidate vendor that has a status row, and none for the others; the sort keeps the
  length of every list it is given; and the length of the displayed list is the length
  of the ranked list minus the number of entries that the active filters reject.
\<close>

theorem ranked_length:
  "length (vendors (fetchVendors userLat userLng (DbData vendorsData) (DbData statusData)
                      locationData page))
     = length (filter (\<lambda>vendor. statusMap statusData (row_id vendor) \<noteq> None) vendorsData)
   \<and> length (array_sort compareVendors ys) = length ys
   \<and> length (filteredVendors p)
       + length (filter (\<lambda>v. \<not> keepVendor (showLiveOnly p) (selectedCuisines p) v) (vendors p))
       = length (vendors p)"
  by (simp add: fetchVendors_def length_array_sort vendorsWithLocation_length
      filteredVendors_def sum_length_filter_compl)

theorem ranked_length_witness:
  "length (vendors (fetchVendors (Fin 39.7684) (Fin (- 86.1581)) (DbData [sample_row])
                      (DbData [sample_status]) no_locations empty_page)) = 1"
  using ranked_length [of "Fin 39.7684" "Fin (- 86.1581)" "[sample_row]" "[sample_status]"
      no_locations empty_page]
  by (simp add: statusMap_def sample_row_def sample_status_def)

text \<open>
  Claim C9 fails as it is stated: the coordinates of a location row that the store
  returns are not checked. A row whose latitude is missing (\<open>null\<close>) gives the vendor
  a location, and a distance: the one to latitude \<open>0\<close>.
\<close>

theorem missing_coordinate_gets_distance:
  "distance_miles (vendorEntry (Fin 39.7684) (Fin (- 86.1581)) malformed_locations
                     sample_row sample_status)
     = Some (calculateDistance (Fin 39.7684) (Fin (- 86.1581)) (Fin 0) (Fin (- 86.15)))
   \<and> location (vendorEntry (Fin 39.7684) (Fin (- 86.1581)) malformed_locations
                     sample_row sample_status)
       = Some \<lparr>vl_latitude = JSNull, vl_longitude = JSNumber (Fin (- 86.15)),
               vl_address = None, vl_notes = None\<rparr>
   \<and> vendors (fetchVendors (Fin 39.7684) (Fin (- 86.1581)) (DbData [sample_row])
                (DbData [sample_status]) malformed_locations empty_page)
       = [vendorEntry (Fin 39.7684) (Fin (- 86.1581)) malformed_locations
                     sample_row sample_status]"
  by (simp add: vendorEntry_def malformed_locations_def sample_status_def sample_row_def
      or_undefined_def fetchVendors_def statusMap_def)

text \<open>
  Claim C9, amended. \<open>fetchVendors\<close> always comes back (with \<open>loading\<close> cleared),
  whatever the store answers; an empty list of candidates gives an empty ranked list;
  the ranked list holds every candidate that has a status row, each treated on its own.
  A vendor has no location and no distance exactly when its status row names no location
  (null or empty id) or the store returns no row for it. A vendor whose row is returned
  has a location and a distance, whatever the coordinate columns hold: they are not
  checked but read as numbers (\<open>null\<close> as \<open>0\<close>, \<open>undefined\<close> as \<open>NaN\<close>, a
  text as the number the language reads from it), and the distance is what
  \<open>calculateDistance\<close> makes of these numbers.
\<close>

theorem ranking_total_missing_location:
  "page_loading (fetchVendors userLat userLng vendorsQuery statusQuery locationData page) = False
   \<and> vendors (fetchVendors userLat userLng (DbData []) (DbData statusData) locationData page) = []
   \<and> mset (vendors (fetchVendors userLat userLng (DbData vendorsData) (DbData statusData)
                      locationData page))
       = mset (map (\<lambda>vendor. vendorEntry userLat userLng locationData vendor
                                (the (statusMap statusData (row_id vendor))))
                 (filter (\<lambda>vendor. statusMap statusData (row_id vendor) \<noteq> None) vendorsData))
   \<and> distance_miles (vendorEntry userLat userLng locationData vendor srow)
       = (case current_location_id srow of
            None \<Rightarrow> None
          | Some lid \<Rightarrow>
              if lid = [] then None
              else (case locationData lid of
                      None \<Rightarrow> None
                    | Some ld \<Rightarrow>
                        Some (calculateDistance userLat userLng
                                (ToNumber (ld_latitude ld)) (ToNumber (ld_longitude ld)))))
   \<and> (location (vendorEntry userLat userLng locationData vendor srow) = None)
       = (distance_miles (vendorEntry userLat userLng locationData vendor srow) = None)
   \<and> ToNumber JSNull = Fin 0 \<and> ToNumber JSUndefined = NaN \<and> ToNumber (JSString t n) = n"
proof -
  have 1: "page_loading (fetchVendors userLat userLng vendorsQuery statusQuery locationData page) = False"
    by (simp add: fetchVendors_def split: db_result.splits)
  have 2: "vendors (fetchVendors userLat userLng (DbData []) (DbData statusData) locationData page) = []"
    by (simp add: fetchVendors_def)
  have 3: "mset (vendors (fetchVendors userLat userLng (DbData vendorsData) (DbData statusData)
                      locationData page))
       = mset (map (\<lambda>vendor. vendorEntry userLat userLng locationData vendor
                                (the (statusMap statusData (row_id vendor))))
                 (filter (\<lambda>vendor. statusMap statusData (row_id vendor) \<noteq> None) vendorsData))"
    by (simp add: fetchVendors_def mset_array_sort vendorsWithLocation_eq)
  have 4: "distance_miles (vendorEntry userLat userLng locationData vendor srow)
       = (case current_location_id srow of
            None \<Rightarrow> None
          | Some lid \<Rightarrow>
              if lid = [] then None
              else (case locationData lid of
                      None \<Rightarrow> None
                    | Some ld \<Rightarrow>
                        Some (calculateDistance userLat userLng
                                (ToNumber (ld_latitude ld)) (ToNumber (ld_longitude ld)))))"
    by (simp add: vendorEntry_def Let_def split: option.splits)
  have 5: "(location (vendorEntry userLat userLng locationData vendor srow) = None)
       = (distance_miles (vendorEntry userLat userLng locationData vendor srow) = None)"
    by (simp add: vendorEntry_def Let_def split: option.splits)
  have 6: "ToNumber JSNull = Fin 0 \<and> ToNumber JSUndefined = NaN \<and> ToNumber (JSString t n) = n"
    by simp
  from 1 2 3 4 5 6 show ?thesis by blast
qed

theorem ranking_total_missing_location_witness:
  "distance_miles (vendorEntry (Fin 39.7684) (Fin (- 86.1581)) no_locations sample_row
                     sample_status) = None
   \<and> location (vendorEntry (Fin 39.7684) (Fin (- 86.1581)) no_locations sample_row
                 sample_status) = None
   \<and> vendors (fetchVendors (Fin 39.7684) (Fin (- 86.1581)) (DbData []) (DbData [sample_status])
                no_locations empty_page) = []"
  using ranking_total_missing_location [of "Fin 39.7684" "Fin (- 86.1581)" "DbData []"
      "DbData [sample_status]" no_locations empty_page "[sample_status]" "[]" sample_row
      sample_status]
  by (simp add: no_locations_def sample_status_def fetchVendors_def)

text \<open>
  Claim C10. When the position sensor is missing, or the position request fails or is
  denied, \<open>requestLocation\<close> shows and hands to \<open>fetchVendors\<close> the default origin,
  latitude 39.7684 and longitude -86.1581; with a position it uses that position.
\<close>

theorem requestLocation_default_origin:
  "requestLocation Unsupported vendorsQuery statusQuery locationData page
     = (fetchVendors (Fin 39.7684) (Fin (- 86.1581)) vendorsQuery statusQuery locationData
          (page\<lparr>userLocation := Some (Fin 39.7684, Fin (- 86.1581))\<rparr>),
        (Fin 39.7684, Fin (- 86.1581)))
   \<and> requestLocation PositionError vendorsQuery statusQuery locationData page
     = (fetchVendors (Fin 39.7684) (Fin (- 86.1581)) vendorsQuery statusQuery locationData
          (page\<lparr>userLocation := Some (Fin 39.7684, Fin (- 86.1581))\<rparr>),
        (Fin 39.7684, Fin (- 86.1581)))
   \<and> requestLocation (Position lat lng) vendorsQuery statusQuery locationData page
     = (fetchVendors lat lng vendorsQuery statusQuery locationData
          (page\<lparr>userLocation := Some (lat, lng)\<rparr>), (lat, lng))"
  by (simp add: requestLocation_def defaultLocation_def)

theorem requestLocation_default_origin_witness:
  "snd (requestLocation PositionError (DbData [sample_row]) (DbData [sample_status])
          no_locations empty_page) = (Fin 39.7684, Fin (- 86.1581))
   \<and> userLocation (fst (requestLocation Unsupported (DbData [sample_row])
          (DbData [sample_status]) no_locations empty_page))
       = Some (Fin 39.7684, Fin (- 86.1581))"
  using requestLocation_default_origin [of "DbData [sample_row]" "DbData [sample_status]"
      no_locations empty_page]
  by (simp add: fetchVendors_def)

section \<open>Properties of the status controller\<close>

subsection \<open>What the handlers do to the status rows\<close>

lemma vendor_id_apply_updates [simp]: "vendor_id (apply_updates u r) = vendor_id r"
  by (simp add: apply_updates_def)

lemma rows_of_map_update:
  "filter (\<lambda>r. vendor_id r = vid)
     (map (\<lambda>r. if vendor_id r = vid' then apply_updates u r else r) rows)
   = map (\<lambda>r. if vid = vid' then apply_updates u r else r) (filter (\<lambda>r. vendor_id r = vid) rows)"
  by (induction rows) auto

lemma rows_of_update_ok:
  "rows_of vid (snd (update_vendor_status vid u None s)) = map (apply_updates u) (rows_of vid s)"
  by (simp add: rows_of_def update_vendor_status_def rows_of_map_update)

lemma rows_of_update_failed:
  "rows_of vid (snd (update_vendor_status vid' u (Some e) s)) = rows_of vid s"
  by (simp add: rows_of_def update_vendor_status_def)

lemma rows_of_insert:
  "rows_of vid (snd (insert_location row answer s)) = rows_of vid s"
  by (simp add: rows_of_def insert_location_def split: db_result.splits)

lemma updateStatus_effect:
  "vendorId (fst (updateStatus newStatus failure (c, s))) = vendorId c
   \<and> status (fst (updateStatus newStatus failure (c, s)))
       = (case failure of None \<Rightarrow> newStatus | Some e \<Rightarrow> status c)
   \<and> rows_of (vendorId c) (snd (updateStatus newStatus failure (c, s)))
       = (case failure of
            None \<Rightarrow>
              map (\<lambda>r. if newStatus = offline
                        then r\<lparr>operational_status := offline, current_location_id := None,
                               went_live_at := None\<rparr>
                        else r\<lparr>operational_status := newStatus\<rparr>)
                (rows_of (vendorId c) s)
          | Some e \<Rightarrow> rows_of (vendorId c) s)"
proof (cases failure)
  case None
  have "rows_of (vendorId c) (snd (updateStatus newStatus None (c, s)))
      = map (\<lambda>r. if newStatus = offline
                        then r\<lparr>operational_status := offline, current_location_id := None,
                               went_live_at := None\<rparr>
                        else r\<lparr>operational_status := newStatus\<rparr>)
                (rows_of (vendorId c) s)"
    using rows_of_update_ok[of "vendorId c" _ s]
    by (simp add: updateStatus_def Let_def split_beta apply_updates_def update_vendor_status_def)
  with None show ?thesis
    by (simp add: updateStatus_def Let_def update_vendor_status_def)
next
  case (Some e)
  then show ?thesis
    using rows_of_update_failed[of "vendorId c" "vendorId c" _ e s]
    by (simp add: updateStatus_def Let_def update_vendor_status_def)
qed

lemma createLocationAndGoLive_effect:
  "vendorId (fst (createLocationAndGoLive lat lng addr cty st zp inserted failure now (c, s)))
     = vendorId c
   \<and> status (fst (createLocationAndGoLive lat lng addr cty st zp inserted failure now (c, s)))
       = (case inserted of
            DbError e \<Rightarrow> status c
          | DbData new_id \<Rightarrow> (case failure of None \<Rightarrow> live | Some e \<Rightarrow> status c))
   \<and> rows_of (vendorId c)
         (snd (createLocationAndGoLive lat lng addr cty st zp inserted failure now (c, s)))
       = (case inserted of
            DbError e \<Rightarrow> rows_of (vendorId c) s
          | DbData new_id \<Rightarrow>
              (case failure of
                 None \<Rightarrow>
                   map (\<lambda>r. r\<lparr>operational_status := live,
                               current_location_id := Some new_id,
                               went_live_at := Some now\<rparr>)
                     (rows_of (vendorId c) s)
               | Some e \<Rightarrow> rows_of (vendorId c) s))"
  by (cases inserted; cases failure)
     (simp_all add: createLocationAndGoLive_def insert_location_def update_vendor_status_def
        rows_of_def rows_of_map_update apply_updates_def)


lemma fits_updateStatus:
  assumes "display_fits vid (c, s)"
    and "newStatus = closing_soon \<and> status c = live \<or> newStatus = offline"
  shows "display_fits vid (updateStatus newStatus failure (c, s))"
proof -
  have v: "vendorId c = vid" using assms(1) by (simp add: display_fits_def)
  note eff = updateStatus_effect[of newStatus failure c s, unfolded v]
  show ?thesis
    using assms eff
    by (cases failure)
       (auto simp: display_fits_def list_all_iff status_consistent_def)
qed

lemma fits_handleStatusChange:
  assumes "display_fits vid (c, s)"
  shows "display_fits vid (handleStatusChange failure (c, s))"
proof (cases "status c")
  case offline
  with assms show ?thesis by (simp add: handleStatusChange_def display_fits_def)
next
  case live
  with assms show ?thesis by (simp add: handleStatusChange_def fits_updateStatus)
next
  case closing_soon
  with assms show ?thesis by (simp add: handleStatusChange_def fits_updateStatus)
qed

lemma fits_createLocationAndGoLive:
  assumes "display_fits vid (c, s)"
  shows "display_fits vid
           (createLocationAndGoLive lat lng addr cty st zp inserted failure now (c, s))"
proof -
  have v: "vendorId c = vid" using assms(1) by (simp add: display_fits_def)
  note eff = createLocationAndGoLive_effect[of lat lng addr cty st zp inserted failure now c s,
      unfolded v]
  show ?thesis
    using assms eff
    by (cases inserted; cases failure)
       (auto simp: display_fits_def list_all_iff status_consistent_def)
qed

lemma fits_loading:
  "display_fits vid (c\<lparr>loading := b\<rparr>, s) = display_fits vid (c, s)"
  by (simp add: display_fits_def)

lemma fits_goLiveWithGPS:
  assumes "display_fits vid (c, s)"
  shows "display_fits vid (goLiveWithGPS sensor inserted failure now (c, s))"
proof (cases sensor)
  case Unsupported
  with assms show ?thesis by (simp add: goLiveWithGPS_def display_fits_def)
next
  case PositionError
  with assms show ?thesis by (simp add: goLiveWithGPS_def display_fits_def)
next
  case (Position lat lng)
  with assms show ?thesis
    by (simp add: goLiveWithGPS_def fits_createLocationAndGoLive fits_loading)
qed

lemma fits_goLiveWithSearchedLocation:
  assumes "display_fits vid (c, s)"
  shows "display_fits vid (goLiveWithSearchedLocation inserted failure now (c, s))"
proof (cases "selectedLocation c")
  case None
  with assms show ?thesis by (simp add: goLiveWithSearchedLocation_def display_fits_def)
next
  case (Some sel)
  with assms show ?thesis
    by (simp add: goLiveWithSearchedLocation_def fits_createLocationAndGoLive fits_loading)
qed

lemma fits_fetchStatus:
  assumes "display_fits vid (c, s)"
  shows "display_fits vid (fetchStatus reachable (c, s))"
proof (cases "reachable \<and> (\<exists>r. rows_of vid s = [r])")
  case True
  then obtain r where r: "rows_of vid s = [r]" by blast
  with True assms show ?thesis
    by (simp add: fetchStatus_def display_fits_def single_def rows_of_def)
next
  case False
  have "vendorId c = vid" using assms by (simp add: display_fits_def)
  with False have "fetchStatus reachable (c, s) = (c, s)"
    by (auto simp: fetchStatus_def single_def rows_of_def split: list.splits)
  with assms show ?thesis by simp
qed

lemma fits_step:
  assumes "display_fits vid w"
  shows "display_fits vid (step e w)"
proof -
  obtain c s where w: "w = (c, s)" by (cases w)
  show ?thesis
    using assms unfolding w
  proof (cases e)
    case (FetchStatus x1)
    then show "display_fits vid (c, s) \<Longrightarrow> display_fits vid (step e (c, s))"
      by (simp add: fits_fetchStatus)
  next
    case (HandleStatusChange x2)
    then show "display_fits vid (c, s) \<Longrightarrow> display_fits vid (step e (c, s))"
      by (simp add: fits_handleStatusChange)
  next
    case (GoLiveWithGPS x31 x32 x33 x34)
    then show "display_fits vid (c, s) \<Longrightarrow> display_fits vid (step e (c, s))"
      by (simp add: fits_goLiveWithGPS)
  next
    case (GoLiveWithSearchedLocation x41 x42 x43)
    then show "display_fits vid (c, s) \<Longrightarrow> display_fits vid (step e (c, s))"
      by (simp add: fits_goLiveWithSearchedLocation)
  qed (simp_all add: display_fits_def mount_def list_all_iff)
qed

lemma fits_run: "display_fits vid w \<Longrightarrow> display_fits vid (run es w)"
  by (induction es arbitrary: w) (simp_all add: fits_step)

lemma fits_onboarded: "display_fits vid (mount vid, onboarded vid)"
  by (simp add: display_fits_def mount_def onboarded_def rows_of_def status_consistent_def)

text \<open>
  Claim C2. Take the store as onboarding leaves it and a freshly mounted component, and
  let the vendor use the component in any way (any handlers in any order, reloads, with
  any answers of the sensor and of the store, one event after the other). Then every
  status row of the vendor has a current location iff its state is live or closing soon,
  and a go-live time iff its state is live or closing soon. A go-live whose two writes
  succeed leaves the state live with both columns set; a go-offline whose write succeeds
  leaves the state offline with both columns null.
\<close>

theorem status_rows_consistent:
  "list_all status_consistent (rows_of vid (snd (run es (mount vid, onboarded vid))))
   \<and> list_all (\<lambda>r. operational_status r = live \<and> current_location_id r = Some new_id
                     \<and> went_live_at r = Some now)
       (rows_of (vendorId c)
          (snd (createLocationAndGoLive lat lng addr cty st zp (DbData new_id) None now (c, s))))
   \<and> list_all (\<lambda>r. operational_status r = offline \<and> current_location_id r = None
                     \<and> went_live_at r = None)
       (rows_of (vendorId c) (snd (updateStatus offline None (c, s))))"
proof -
  have "display_fits vid (run es (mount vid, onboarded vid))"
    by (rule fits_run) (rule fits_onboarded)
  then have 1: "list_all status_consistent (rows_of vid (snd (run es (mount vid, onboarded vid))))"
    by (simp add: display_fits_def list_all_iff)
  have 2: "list_all (\<lambda>r. operational_status r = live \<and> current_location_id r = Some new_id
                     \<and> went_live_at r = Some now)
       (rows_of (vendorId c)
          (snd (createLocationAndGoLive lat lng addr cty st zp (DbData new_id) None now (c, s))))"
    using createLocationAndGoLive_effect[of lat lng addr cty st zp "DbData new_id" None now c s]
    by (simp add: list_all_iff)
  have 3: "list_all (\<lambda>r. operational_status r = offline \<and> current_location_id r = None
                     \<and> went_live_at r = None)
       (rows_of (vendorId c) (snd (updateStatus offline None (c, s))))"
    using updateStatus_effect[of offline None c s]
    by (simp add: list_all_iff)
  from 1 2 3 show ?thesis by blast
qed

theorem status_rows_consistent_witness:
  "rows_of ''V1'' (snd (run first_session (mount ''V1'', onboarded ''V1'')))
     = [\<lparr>vendor_id = ''V1'', is_live = False, operational_status = closing_soon,
         went_live_at = Some ''t0'', current_location_id = Some ''L0''\<rparr>]
   \<and> list_all status_consistent
       (rows_of ''V1'' (snd (run first_session (mount ''V1'', onboarded ''V1''))))"
proof -
  have "rows_of ''V1'' (snd (run first_session (mount ''V1'', onboarded ''V1'')))
     = [\<lparr>vendor_id = ''V1'', is_live = False, operational_status = closing_soon,
         went_live_at = Some ''t0'', current_location_id = Some ''L0''\<rparr>]"
    by (simp add: first_session_def mount_def onboarded_def rows_of_def fetchStatus_def
        single_def handleStatusChange_def goLiveWithGPS_def createLocationAndGoLive_def
        insert_location_def update_vendor_status_def updateStatus_def apply_updates_def
        or_undefined_def)
  then show ?thesis
    using status_rows_consistent [of "''V1''" first_session] by blast
qed

subsection \<open>The cycle of states\<close>

lemma stored_status_updateStatus:
  "stored_status (vendorId c) (snd (updateStatus newStatus failure (c, s)))
     = (case failure of
          None \<Rightarrow> map (\<lambda>r. newStatus) (rows_of (vendorId c) s)
        | Some e \<Rightarrow> stored_status (vendorId c) s)"
  using updateStatus_effect[of newStatus failure c s]
  by (cases failure) (simp_all add: stored_status_def o_def)

lemma stored_status_createLocationAndGoLive:
  "stored_status (vendorId c)
     (snd (createLocationAndGoLive lat lng addr cty st zp inserted failure now (c, s)))
     = (case inserted of
          DbError e \<Rightarrow> stored_status (vendorId c) s
        | DbData new_id \<Rightarrow>
            (case failure of
               None \<Rightarrow> map (\<lambda>r. live) (rows_of (vendorId c) s)
             | Some e \<Rightarrow> stored_status (vendorId c) s))"
  using createLocationAndGoLive_effect[of lat lng addr cty st zp inserted failure now c s]
  by (cases inserted; cases failure) (simp_all add: stored_status_def o_def)

lemma one_row: "stored_status vid s = [x] \<Longrightarrow> map (\<lambda>r. y) (rows_of vid s) = [y]"
  by (cases "rows_of vid s") (simp_all add: stored_status_def)

lemma cycle_handleStatusChange:
  assumes "stored_status (vendorId c) s = [status c]"
  shows "stored_status (vendorId c) (snd (handleStatusChange failure (c, s)))
           = [status (fst (handleStatusChange failure (c, s)))]
       \<and> status (fst (handleStatusChange failure (c, s)))
           = (if status c = offline \<or> failure \<noteq> None then status c else next_status (status c))
       \<and> (status c = offline \<longrightarrow> snd (handleStatusChange failure (c, s)) = s)"
proof (cases "status c")
  case offline
  with assms show ?thesis by (simp add: handleStatusChange_def)
next
  case live
  with assms show ?thesis
    using updateStatus_effect[of closing_soon failure c s]
      stored_status_updateStatus[of c closing_soon failure s]
    by (cases failure) (simp_all add: handleStatusChange_def one_row)
next
  case closing_soon
  with assms show ?thesis
    using updateStatus_effect[of offline failure c s]
      stored_status_updateStatus[of c offline failure s]
    by (cases failure) (simp_all add: handleStatusChange_def one_row)
qed

lemma cycle_createLocationAndGoLive:
  assumes "stored_status (vendorId c) s = [status c]" "status c = offline"
  shows "stored_status (vendorId c)
           (snd (createLocationAndGoLive lat lng addr cty st zp inserted failure now (c, s)))
           = [status (fst (createLocationAndGoLive lat lng addr cty st zp inserted failure now (c, s)))]
       \<and> status (fst (createLocationAndGoLive lat lng addr cty st zp inserted failure now (c, s)))
           = (case inserted of DbError e \<Rightarrow> offline
              | DbData new_id \<Rightarrow> (case failure of None \<Rightarrow> live | Some e \<Rightarrow> offline))"
  using assms createLocationAndGoLive_effect[of lat lng addr cty st zp inserted failure now c s]
    stored_status_createLocationAndGoLive[of c lat lng addr cty st zp inserted failure now s]
  by (cases inserted; cases failure) (simp_all add: one_row)

lemma cycle_step:
  assumes sync: "stored_status (vendorId c) s = [status c]"
    and "e \<noteq> Remount"
    and "goes_live e \<longrightarrow> status c = offline"
  shows "stored_status (vendorId c) (snd (step e (c, s))) = [status (fst (step e (c, s)))]
       \<and> (status (fst (step e (c, s))) = status c
          \<or> status (fst (step e (c, s))) = next_status (status c))"
proof (cases e)
  case (FetchStatus reachable)
  have "fetchStatus reachable (c, s) = (c, s) \<or> fetchStatus reachable (c, s) = (c\<lparr>status := status c\<rparr>, s)"
    using sync
    by (auto simp: fetchStatus_def single_def stored_status_def rows_of_def split: list.splits)
  then have "fetchStatus reachable (c, s) = (c, s)" by auto
  with FetchStatus sync show ?thesis by simp
next
  case (HandleStatusChange failure)
  with cycle_handleStatusChange[OF sync, of failure] show ?thesis by auto
next
  case (GoLiveWithGPS sensor inserted failure now)
  with assms(3) have off: "status c = offline" by simp
  show ?thesis
  proof (cases sensor)
    case Unsupported
    with GoLiveWithGPS sync show ?thesis by (simp add: goLiveWithGPS_def)
  next
    case PositionError
    with GoLiveWithGPS sync show ?thesis by (simp add: goLiveWithGPS_def)
  next
    case (Position lat lng)
    have s1: "stored_status (vendorId (c\<lparr>loading := True\<rparr>)) s = [status (c\<lparr>loading := True\<rparr>)]"
      using sync by simp
    have o1: "status (c\<lparr>loading := True\<rparr>) = offline" using off by simp
    from cycle_createLocationAndGoLive[OF s1 o1, of lat lng None None None None inserted failure now]
    show ?thesis using GoLiveWithGPS Position off
      by (cases inserted; cases failure) (simp_all add: goLiveWithGPS_def)
  qed
next
  case (GoLiveWithSearchedLocation inserted failure now)
  with assms(3) have off: "status c = offline" by simp
  show ?thesis
  proof (cases "selectedLocation c")
    case None
    with GoLiveWithSearchedLocation sync show ?thesis by (simp add: goLiveWithSearchedLocation_def)
  next
    case (Some sel)
    have s1: "stored_status (vendorId (c\<lparr>loading := True\<rparr>)) s = [status (c\<lparr>loading := True\<rparr>)]"
      using sync by simp
    have o1: "status (c\<lparr>loading := True\<rparr>) = offline" using off by simp
    from cycle_createLocationAndGoLive[OF s1 o1, of "sel_latitude sel" "sel_longitude sel"
        "Some (sel_address sel)" "sel_city sel" "sel_state sel" "sel_zip sel" inserted failure now]
    show ?thesis using GoLiveWithSearchedLocation Some off
      by (cases inserted; cases failure) (simp_all add: goLiveWithSearchedLocation_def)
  qed
next
  case Remount
  with assms(2) show ?thesis by simp
qed (use sync in simp_all)

text \<open>
  Claim C1 fails as it is stated: the handlers choose the transition from the status
  that the component displays, which starts as \<open>offline\<close> and stays so when the fetch
  of the stored status fails; they never look at the stored state and reject nothing.
  After a first session that leaves the vendor closing soon, a reload with a failed
  fetch offers the go-live form, and going live moves the stored state from closing soon
  to live and rewrites the row.
\<close>

theorem stale_display_goes_live_from_closing_soon:
  "stored_status ''V1'' (snd (run first_session (mount ''V1'', onboarded ''V1'')))
     = [closing_soon]
   \<and> rows_of ''V1'' (snd (run (first_session @ stale_session) (mount ''V1'', onboarded ''V1'')))
     = [\<lparr>vendor_id = ''V1'', is_live = False, operational_status = live,
         went_live_at = Some ''t1'', current_location_id = Some ''L1''\<rparr>]
   \<and> alerts (fst (run (first_session @ stale_session) (mount ''V1'', onboarded ''V1'')))
     = [NowLive]"
  by (simp add: first_session_def stale_session_def sample_selection_def mount_def onboarded_def
        rows_of_def stored_status_def fetchStatus_def
        single_def handleStatusChange_def goLiveWithGPS_def goLiveWithSearchedLocation_def
        createLocationAndGoLive_def
        insert_location_def update_vendor_status_def updateStatus_def apply_updates_def
        or_undefined_def)

text \<open>
  Claim C1, amended. When the displayed status is the stored one, every handler (a
  go-live handler being run from displayed offline) leaves the stored state as it is or
  moves it to the next state of the cycle offline, live, closing soon, offline, and the
  display stays equal to the stored state. The status button moves live to closing soon
  and closing soon to offline when its write succeeds, and leaves the state when the
  write fails; from offline it leaves the store alone and opens the location form, from
  which a go-live whose writes succeed moves offline to live.
\<close>

theorem handlers_follow_cycle:
  assumes "stored_status (vendorId c) s = [status c]"
    and "e \<noteq> Remount"
    and "goes_live e \<longrightarrow> status c = offline"
  shows "stored_status (vendorId c) (snd (step e (c, s))) = [status (fst (step e (c, s)))]
       \<and> (status (fst (step e (c, s))) = status c
          \<or> status (fst (step e (c, s))) = next_status (status c))
       \<and> status (fst (handleStatusChange failure (c, s)))
           = (if status c = offline \<or> failure \<noteq> None then status c else next_status (status c))
       \<and> (status c = offline \<longrightarrow>
            snd (handleStatusChange failure (c, s)) = s
            \<and> showLocationInput (fst (handleStatusChange failure (c, s)))
            \<and> status (fst (createLocationAndGoLive lat lng addr cty st zp (DbData new_id) None
                              now (c, s))) = next_status (status c))"
proof -
  have a: "status c = offline \<longrightarrow> showLocationInput (fst (handleStatusChange failure (c, s)))"
    by (simp add: handleStatusChange_def)
  have b: "status c = offline \<longrightarrow>
     status (fst (createLocationAndGoLive lat lng addr cty st zp (DbData new_id) None
                              now (c, s))) = next_status (status c)"
    using createLocationAndGoLive_effect[of lat lng addr cty st zp "DbData new_id" None now c s]
    by simp
  show ?thesis
    using cycle_step[OF assms] cycle_handleStatusChange[OF assms(1), of failure] a b
    by blast
qed

theorem handlers_follow_cycle_witness:
  "stored_status ''V1'' (snd (step (HandleStatusChange None)
       (run first_session (mount ''V1'', onboarded ''V1'')))) = [offline]
   \<and> next_status (status (fst (run first_session (mount ''V1'', onboarded ''V1'')))) = offline"
proof -
  let ?w = "run first_session (mount ''V1'', onboarded ''V1'')"
  have w: "?w =
    (\<lparr>vendorId = ''V1'', status = closing_soon, loading = False,
     locationNotes = [], showLocationInput = False,
     useManualLocation = False, selectedLocation = None,
     alerts = [NowLive, NowClosingSoon]\<rparr>,
  \<lparr>locations =
     [\<lparr>loc_id = ''L0'', loc_vendor_id = ''V1'', latitude = Fin 39.77,
         longitude = Fin (- 86.15), address = None, city = None,
         state = None, zip_code = None, loc_notes = None,
         is_current_location = True\<rparr>],
     vendor_status =
       [\<lparr>vendor_id = ''V1'', is_live = False,
           operational_status = closing_soon, went_live_at = Some ''t0'',
           current_location_id = Some ''L0''\<rparr>],
     calls =
       [InsertLocation ''V1'',
        UpdateVendorStatus ''V1''
         \<lparr>upd_operational_status = live,
            upd_current_location_id = Some (Some ''L0''),
            upd_went_live_at = Some (Some ''t0'')\<rparr>,
        UpdateVendorStatus ''V1''
         \<lparr>upd_operational_status = closing_soon,
            upd_current_location_id = None, upd_went_live_at = None\<rparr>]\<rparr>)"
    by (simp add: first_session_def mount_def onboarded_def rows_of_def fetchStatus_def
        single_def handleStatusChange_def goLiveWithGPS_def createLocationAndGoLive_def
        insert_location_def update_vendor_status_def updateStatus_def apply_updates_def
        or_undefined_def)
  have h1: "stored_status (vendorId (fst ?w)) (snd ?w) = [status (fst ?w)]"
    unfolding w by (simp add: stored_status_def rows_of_def)
  have h2: "HandleStatusChange None \<noteq> Remount" by simp
  have h3: "goes_live (HandleStatusChange None) \<longrightarrow> status (fst ?w) = offline" by simp
  have st: "status (fst ?w) = closing_soon" "vendorId (fst ?w) = ''V1''" unfolding w by simp_all
  from handlers_follow_cycle [OF h1 h2 h3, of None]
  have "stored_status (vendorId (fst ?w)) (snd (step (HandleStatusChange None) (fst ?w, snd ?w)))
      = [status (fst (step (HandleStatusChange None) (fst ?w, snd ?w)))]"
    and "status (fst (handleStatusChange None (fst ?w, snd ?w))) = next_status (status (fst ?w))"
    using st by simp_all
  then show ?thesis using st by simp
qed

subsection \<open>Going live\<close>

text \<open>
  Claim C6. When the sensor gives no coordinate (there is none, or the request fails or
  is denied) and no location is selected, both go-live handlers end with an alert that
  asks for the location by another way (the error \<open>LocationUnavailable\<close>), the GPS
  handler switches to manual entry and clears \<open>loading\<close>, and the store is exactly
  as before: no request is sent, no location row is inserted, no status row changes.
\<close>

theorem go_live_without_location:
  assumes "sensor = Unsupported \<or> sensor = PositionError"
    and "selectedLocation c = None"
  shows "snd (goLiveWithGPS sensor inserted failure now (c, s)) = s
       \<and> snd (goLiveWithSearchedLocation inserted failure now (c, s)) = s
       \<and> fst (goLiveWithGPS sensor inserted failure now (c, s))
           = c\<lparr>loading := False, useManualLocation := True,
                alerts := alerts c @ [if sensor = Unsupported then GeolocationUnsupported
                                      else GeolocationFailed]\<rparr>
       \<and> fst (goLiveWithSearchedLocation inserted failure now (c, s))
           = c\<lparr>alerts := alerts c @ [NoLocationSelected]\<rparr>
       \<and> LocationUnavailable (last (alerts (fst (goLiveWithGPS sensor inserted failure now (c, s)))))
       \<and> LocationUnavailable
           (last (alerts (fst (goLiveWithSearchedLocation inserted failure now (c, s)))))"
  using assms
  by (auto simp: goLiveWithGPS_def goLiveWithSearchedLocation_def LocationUnavailable_def)

theorem go_live_without_location_witness:
  "snd (goLiveWithGPS PositionError (DbData ''L1'') None ''t1''
          (mount ''V1'', onboarded ''V1'')) = onboarded ''V1''
   \<and> alerts (fst (goLiveWithGPS PositionError (DbData ''L1'') None ''t1''
          (mount ''V1'', onboarded ''V1''))) = [GeolocationFailed]
   \<and> snd (goLiveWithSearchedLocation (DbData ''L1'') None ''t1''
          (mount ''V1'', onboarded ''V1'')) = onboarded ''V1''
   \<and> alerts (fst (goLiveWithSearchedLocation (DbData ''L1'') None ''t1''
          (mount ''V1'', onboarded ''V1''))) = [NoLocationSelected]"
proof -
  have h1: "PositionError = Unsupported \<or> PositionError = PositionError" by simp
  have h2: "selectedLocation (mount ''V1'') = None" by (simp add: mount_def)
  from go_live_without_location [OF h1 h2, of "DbData ''L1''" None "''t1''" "onboarded ''V1''"]
  show ?thesis by (simp add: mount_def)
qed

lemma display_follows_createLocationAndGoLive:
  assumes "stored_status (vendorId c) s = [status c]"
  shows "stored_status (vendorId c)
           (snd (createLocationAndGoLive lat lng addr cty st zp inserted failure now (c, s)))
         = [status (fst (createLocationAndGoLive lat lng addr cty st zp inserted failure now
                           (c, s)))]"
  using assms createLocationAndGoLive_effect[of lat lng addr cty st zp inserted failure now c s]
    stored_status_createLocationAndGoLive[of c lat lng addr cty st zp inserted failure now s]
  by (cases inserted; cases failure) (simp_all add: one_row)

text \<open>
  Claim C7. One run of \<open>createLocationAndGoLive\<close> sends the insert of the location
  first and the update of the status after it, and sends no update when the insert has
  failed. The status rows change only when both writes succeed, and then they name the
  location that was inserted; the displayed status becomes \<open>live\<close> only then and is
  otherwise what it was, with the alert of the failure; so a display that showed the
  stored state before the run shows the stored state after it. (A location row whose
  insert succeeded stays in \<open>locations\<close> when the update fails.)
\<close>

theorem insert_before_update:
  "calls (snd (createLocationAndGoLive lat lng addr cty st zp inserted failure now (c, s)))
     = calls s
       @ (case inserted of
            DbError e \<Rightarrow> [InsertLocation (vendorId c)]
          | DbData new_id \<Rightarrow>
              [InsertLocation (vendorId c),
               UpdateVendorStatus (vendorId c)
                 \<lparr>upd_operational_status = live,
                  upd_current_location_id = Some (Some new_id),
                  upd_went_live_at = Some (Some now)\<rparr>])
   \<and> status (fst (createLocationAndGoLive lat lng addr cty st zp inserted failure now (c, s)))
       = (case inserted of
            DbError e \<Rightarrow> status c
          | DbData new_id \<Rightarrow> (case failure of None \<Rightarrow> live | Some e \<Rightarrow> status c))
   \<and> vendor_status
         (snd (createLocationAndGoLive lat lng addr cty st zp inserted failure now (c, s)))
       = (case inserted of
            DbError e \<Rightarrow> vendor_status s
          | DbData new_id \<Rightarrow>
              (case failure of
                 Some e \<Rightarrow> vendor_status s
               | None \<Rightarrow>
                   map (\<lambda>r. if vendor_id r = vendorId c
                             then r\<lparr>operational_status := live,
                                    current_location_id := Some new_id,
                                    went_live_at := Some now\<rparr>
                             else r)
                     (vendor_status s)))
   \<and> map loc_id
         (locations
            (snd (createLocationAndGoLive lat lng addr cty st zp inserted failure now (c, s))))
       = map loc_id (locations s) @ (case inserted of DbError e \<Rightarrow> [] | DbData new_id \<Rightarrow> [new_id])
   \<and> alerts (fst (createLocationAndGoLive lat lng addr cty st zp inserted failure now (c, s)))
       = alerts c
         @ [case inserted of
              DbError e \<Rightarrow> GoLiveFailed
            | DbData new_id \<Rightarrow> (case failure of None \<Rightarrow> NowLive | Some e \<Rightarrow> GoLiveFailed)]
   \<and> loading (fst (createLocationAndGoLive lat lng addr cty st zp inserted failure now (c, s)))
       = False
   \<and> (stored_status (vendorId c) s = [status c] \<longrightarrow>
        stored_status (vendorId c)
          (snd (createLocationAndGoLive lat lng addr cty st zp inserted failure now (c, s)))
        = [status (fst (createLocationAndGoLive lat lng addr cty st zp inserted failure now
                          (c, s)))])"
  using display_follows_createLocationAndGoLive[of c s lat lng addr cty st zp inserted failure now]
  by (cases inserted; cases failure)
     (simp_all add: createLocationAndGoLive_def insert_location_def update_vendor_status_def
        apply_updates_def)

theorem insert_before_update_witness:
  "calls (snd (createLocationAndGoLive (Fin 39.77) (Fin (- 86.15)) None None None None
                 (DbError ''unreachable'') None ''t0'' (mount ''V1'', onboarded ''V1'')))
     = [InsertLocation ''V1'']
   \<and> status (fst (createLocationAndGoLive (Fin 39.77) (Fin (- 86.15)) None None None None
                 (DbData ''L0'') (Some ''constraint'') ''t0'' (mount ''V1'', onboarded ''V1'')))
     = offline
   \<and> vendor_status (snd (createLocationAndGoLive (Fin 39.77) (Fin (- 86.15)) None None None None
                 (DbData ''L0'') (Some ''constraint'') ''t0'' (mount ''V1'', onboarded ''V1'')))
     = vendor_status (onboarded ''V1'')
   \<and> stored_status ''V1''
       (snd (createLocationAndGoLive (Fin 39.77) (Fin (- 86.15)) None None None None
                 (DbData ''L0'') (Some ''constraint'') ''t0'' (mount ''V1'', onboarded ''V1'')))
     = [offline]"
  using insert_before_update [of "Fin 39.77" "Fin (- 86.15)" None None None None
      "DbError ''unreachable''" None "''t0''" "mount ''V1''" "onboarded ''V1''"]
    insert_before_update [of "Fin 39.77" "Fin (- 86.15)" None None None None
      "DbData ''L0''" "Some ''constraint''" "''t0''" "mount ''V1''" "onboarded ''V1''"]
  by (simp add: mount_def onboarded_def stored_status_def rows_of_def)

end
